theory Spec2Isabelle
  imports Complex_Main
begin

section \<open>Conventions\<close>

text \<open>
  The development embeds the rFactor OpenMotorsport logging plug-in: the session model of
  \<^verbatim>\<open>OpenMotorsport.cpp\<close> (channels, markers, the meta document and the archive) and the
  synchronous \<^verbatim>\<open>LoggingPlugin\<close> (start and stop of a logging run, the sampler and the
  sector-time resolver).

  \<^item> C++ \<^verbatim>\<open>float\<close> and \<^verbatim>\<open>double\<close> values are modelled as \<^typ>\<open>real\<close>: rounding of
    floating-point arithmetic and NaN are not modelled. The properties proved below depend
    on such values only through comparisons with zero and through which buffer a value is
    appended to. The marker list of a session is the exception: its values are modelled
    with the rounding of binary32, see \<open>round_float\<close>.
  \<^item> C++ \<^verbatim>\<open>int\<close>, \<^verbatim>\<open>long\<close>, \<^verbatim>\<open>short\<close> and \<^verbatim>\<open>char\<close> values are modelled as
    \<^typ>\<open>int\<close> or \<^typ>\<open>nat\<close>, without wrap-around. The arithmetic on them is the
    channel id counter (57 increments), the difference of two lap numbers, the fields of
    the date and the conversion of seconds to milliseconds; all are taken to stay in the
    range of their C++ type.
  \<^item> A \<^verbatim>\<open>throw\<close>, the dereference of a null session pointer and an array read out of
    range are values of the type \<open>error\<close>; a function that can meet one returns
    \<open>error + 'a\<close>.
  \<^item> \<^verbatim>\<open>std::tr1::unordered_map\<close> is an association list with distinct keys, kept in
    insertion order. The iteration order of the C++ container is unspecified; insertion
    order is one admissible order and nothing below depends on it.
\<close>

datatype error = Thrown string | NullPointer | OutOfRange

definition bindE :: "error + 'a \<Rightarrow> ('a \<Rightarrow> error + 'b) \<Rightarrow> error + 'b" where
  "bindE r f = (case r of Inl e \<Rightarrow> Inl e | Inr x \<Rightarrow> f x)"

text \<open>Decimal rendering of integers, as \<^verbatim>\<open>%d\<close> of \<^verbatim>\<open>sprintf\<close> and \<^verbatim>\<open>strftime\<close> produce it.\<close>

definition digit_char :: "nat \<Rightarrow> char" where
  "digit_char d = char_of (48 + d)"

fun decimal :: "nat \<Rightarrow> string" where
  "decimal n = (if n < 10 then [digit_char n] else decimal (n div 10) @ [digit_char (n mod 10)])"

declare decimal.simps [simp del]

definition string_of_int :: "int \<Rightarrow> string" where
  "string_of_int i = (if i < 0 then CHR ''-'' # decimal (nat (- i)) else decimal (nat i))"

definition zero_pad :: "nat \<Rightarrow> int \<Rightarrow> string" where
  "zero_pad w i = (let s = string_of_int i in replicate (w - length s) CHR ''0'' @ s)"


section \<open>OpenMotorsport.hpp: constants and classes\<close>

definition kChannelVariableSampleInterval :: int where
  "kChannelVariableSampleInterval = - 1"

definition kChannelNoUnits :: string where
  "kChannelNoUnits = ''''"

definition kChannelNoGroup :: string where
  "kChannelNoGroup = ''''"

definition kSessionNoVehicleCategory :: string where
  "kSessionNoVehicleCategory = ''''"

definition kSessionNoUser :: string where
  "kSessionNoUser = ''No User''"

definition kSessionNoVehicleName :: string where
  "kSessionNoVehicleName = ''No Vehicle''"

definition kSessionNoTrackName :: string where
  "kSessionNoTrackName = ''No Track''"

definition kSessionNoDataSource :: string where
  "kSessionNoDataSource = ''''"

definition kSessionNoSectors :: int where
  "kSessionNoSectors = - 1"

subsection \<open>DataBuffer\<close>

type_synonym DataBuffer = "real list"

definition DataBuffer_Write :: "real \<Rightarrow> DataBuffer \<Rightarrow> DataBuffer" where
  "DataBuffer_Write v mData = mData @ [v]"

definition GetLength :: "DataBuffer \<Rightarrow> int" where
  "GetLength mData = int (length mData)"

definition GetSize :: "DataBuffer \<Rightarrow> int" where
  "GetSize mData = int (length mData) * 4"

definition GetBytes :: "DataBuffer \<Rightarrow> real list" where
  "GetBytes mData = mData"

subsection \<open>Channel\<close>

record Channel =
  mId :: int
  mName :: string
  mGroup :: string
  mUnits :: string
  mSampleInterval :: int
  mDataBuffer :: DataBuffer

definition Channel_new :: "int \<Rightarrow> string \<Rightarrow> int \<Rightarrow> string \<Rightarrow> string \<Rightarrow> Channel" where
  "Channel_new ident name sampleInterval units grp =
     \<lparr>mId = ident, mName = name, mGroup = grp, mUnits = units,
      mSampleInterval = sampleInterval, mDataBuffer = []\<rparr>"

text \<open>
  The default constructor \<^verbatim>\<open>Channel() {}\<close> leaves the id and the sample interval
  indeterminate; they are 0 here. It is only used by \<^verbatim>\<open>operator[]\<close> on a missing key.
\<close>

definition Channel_default :: Channel where
  "Channel_default =
     \<lparr>mId = 0, mName = [], mGroup = [], mUnits = [], mSampleInterval = 0, mDataBuffer = []\<rparr>"

subsection \<open>The channel map\<close>

type_synonym ChannelsMap = "(string \<times> Channel) list"

definition MAP_HAS_KEY :: "('k \<times> 'v) list \<Rightarrow> 'k \<Rightarrow> bool" where
  "MAP_HAS_KEY m k = (map_of m k \<noteq> None)"

text \<open>\<^verbatim>\<open>unordered_map::insert\<close>: a key that is present keeps its value.\<close>

definition map_insert :: "('k \<times> 'v) list \<Rightarrow> 'k \<Rightarrow> 'v \<Rightarrow> ('k \<times> 'v) list" where
  "map_insert m k v = (if MAP_HAS_KEY m k then m else m @ [(k, v)])"

text \<open>\<^verbatim>\<open>unordered_map::operator[]\<close>: a missing key is inserted with a default value.\<close>

definition map_subscript :: "ChannelsMap \<Rightarrow> string \<Rightarrow> Channel \<times> ChannelsMap" where
  "map_subscript m k =
     (case map_of m k of
        Some c \<Rightarrow> (c, m)
      | None \<Rightarrow> (Channel_default, m @ [(k, Channel_default)]))"

text \<open>Assignment through the reference that \<^verbatim>\<open>operator[]\<close> returned.\<close>

definition map_modify :: "('k \<times> 'v) list \<Rightarrow> 'k \<Rightarrow> ('v \<Rightarrow> 'v) \<Rightarrow> ('k \<times> 'v) list" where
  "map_modify m k f = map (\<lambda>(k', v). if k' = k then (k', f v) else (k', v)) m"

subsection \<open>Session\<close>

record tm =
  tm_year :: int
  tm_mon :: int
  tm_mday :: int
  tm_hour :: int
  tm_min :: int
  tm_sec :: int

record Session =
  mChannels :: ChannelsMap
  mMarkers :: "int list"
  mNumSectors :: int
  mFullName :: string
  mVehicleName :: string
  mVehicleCategory :: string
  mTrackName :: string
  mDataSource :: string
  mComments :: string
  mDate :: tm

text \<open>The constructor reads the clock; the reading is the argument \<open>now\<close>.\<close>

definition Session_new :: "tm \<Rightarrow> Session" where
  "Session_new now =
     \<lparr>mChannels = [], mMarkers = [], mNumSectors = kSessionNoSectors,
      mFullName = kSessionNoUser, mVehicleName = kSessionNoVehicleName,
      mVehicleCategory = kSessionNoVehicleCategory, mTrackName = kSessionNoTrackName,
      mDataSource = kSessionNoDataSource, mComments = [], mDate = now\<rparr>"

definition channel_key :: "string \<Rightarrow> string \<Rightarrow> string" where
  "channel_key name grp = name @ ''/'' @ grp"

definition AddChannel :: "Channel \<Rightarrow> Session \<Rightarrow> Session" where
  "AddChannel channel s =
     (let key = channel_key (mName channel) (mGroup channel)
      in s\<lparr>mChannels := map_insert (mChannels s) key channel\<rparr>)"

text \<open>
  The marker list is a \<^verbatim>\<open>std::vector<float>\<close>. \<^verbatim>\<open>AddMarker\<close> and \<^verbatim>\<open>AddRelativeMarker\<close>
  take an \<^verbatim>\<open>int\<close> in \<^verbatim>\<open>OpenMotorsport.cpp\<close>: the argument is converted to \<^verbatim>\<open>float\<close>, and
  a relative marker is the \<^verbatim>\<open>float\<close> sum of the last marker and the converted argument.
  Conversion and sum round to the nearest binary32 value, which has 24 significant bits;
  a tie goes to the value with the even significand. Every value that reaches the list is
  therefore an integer, and the list is modelled as the list of these integers.

  \<open>round_float i\<close> is the binary32 value nearest to the integer \<open>i\<close>: of the bits of
  \<open>\<bar>i\<bar>\<close> the 24 leading ones are kept and the \<open>bit_length \<bar>i\<bar> - 24\<close> bits below them are
  rounded away. Overflow to infinity, from \<open>2 ^ 128\<close> on, is not modelled, and the sum is
  taken to be evaluated in \<^verbatim>\<open>float\<close> precision.
\<close>

fun bit_length :: "nat \<Rightarrow> nat" where
  "bit_length n = (if n = 0 then 0 else Suc (bit_length (n div 2)))"

declare bit_length.simps [simp del]

definition round_float :: "int \<Rightarrow> int" where
  "round_float i =
     (let a = \<bar>i\<bar>;
          u = 2 ^ (bit_length (nat a) - 24);
          q = a div u;
          r = a mod u;
          q' = (if 2 * r < u \<or> (2 * r = u \<and> even q) then q else q + 1)
      in sgn i * (q' * u))"

definition AddMarker :: "int \<Rightarrow> Session \<Rightarrow> Session" where
  "AddMarker marker s = s\<lparr>mMarkers := mMarkers s @ [round_float marker]\<rparr>"

definition AddRelativeMarker :: "int \<Rightarrow> Session \<Rightarrow> Session" where
  "AddRelativeMarker marker s =
     (if length (mMarkers s) < 1
      then s\<lparr>mMarkers := mMarkers s @ [round_float marker]\<rparr>
      else s\<lparr>mMarkers := mMarkers s @ [round_float (last (mMarkers s) + round_float marker)]\<rparr>)"

text \<open>
  \<^verbatim>\<open>GetChannel\<close> returns a reference into the map. The model returns the channel
  together with the session as \<^verbatim>\<open>operator[]\<close> leaves it.
\<close>

definition GetChannel :: "string \<Rightarrow> string \<Rightarrow> Session \<Rightarrow> error + (Channel \<times> Session)" where
  "GetChannel channelName grp s =
     (if length (mChannels s) = 0 then Inl (Thrown ''No channels.'')
      else let key = channel_key channelName grp
           in if \<not> MAP_HAS_KEY (mChannels s) key then Inl (Thrown ''Channel does not exist.'')
              else let (c, m) = map_subscript (mChannels s) key
                   in Inr (c, s\<lparr>mChannels := m\<rparr>))"

definition SetNumberOfSectors :: "int \<Rightarrow> Session \<Rightarrow> Session" where
  "SetNumberOfSectors numSectors s = s\<lparr>mNumSectors := numSectors\<rparr>"

definition SetUser :: "string \<Rightarrow> Session \<Rightarrow> Session" where
  "SetUser fullName s = s\<lparr>mFullName := fullName\<rparr>"

definition SetVehicle :: "string \<Rightarrow> Session \<Rightarrow> Session" where
  "SetVehicle vehicleName s = s\<lparr>mVehicleName := vehicleName\<rparr>"

definition SetVehicleCategory :: "string \<Rightarrow> Session \<Rightarrow> Session" where
  "SetVehicleCategory vehicleCategory s = s\<lparr>mVehicleCategory := vehicleCategory\<rparr>"

definition SetTrack :: "string \<Rightarrow> Session \<Rightarrow> Session" where
  "SetTrack trackName s = s\<lparr>mTrackName := trackName\<rparr>"

definition SetDataSource :: "string \<Rightarrow> Session \<Rightarrow> Session" where
  "SetDataSource dataSource s = s\<lparr>mDataSource := dataSource\<rparr>"

definition SetComment :: "string \<Rightarrow> Session \<Rightarrow> Session" where
  "SetComment comment s = s\<lparr>mComments := comment\<rparr>"

text \<open>\<^verbatim>\<open>strftime(buf, 80, "%Y-%m-%dT%H:%M:%S", mDate)\<close>.\<close>

definition GetISO8601Date :: "tm \<Rightarrow> string" where
  "GetISO8601Date d =
     string_of_int (tm_year d + 1900) @ ''-'' @ zero_pad 2 (tm_mon d + 1) @ ''-'' @
     zero_pad 2 (tm_mday d) @ ''T'' @ zero_pad 2 (tm_hour d) @ '':'' @
     zero_pad 2 (tm_min d) @ '':'' @ zero_pad 2 (tm_sec d)"

text \<open>
  Two invariants of a session built from \<open>Session_new\<close> by \<open>AddChannel\<close>: every channel
  sits under the key made of its own name and group, and no two channels of the session
  have the same (name, group) pair.
\<close>

definition keys_consistent :: "Session \<Rightarrow> bool" where
  "keys_consistent s =
     (distinct (map fst (mChannels s)) \<and>
      list_all (\<lambda>(k, c). k = channel_key (mName c) (mGroup c)) (mChannels s))"

definition pairs_unique :: "Session \<Rightarrow> bool" where
  "pairs_unique s = distinct (map (\<lambda>(k, c). (mName c, mGroup c)) (mChannels s))"

definition registered :: "string \<Rightarrow> string \<Rightarrow> Session \<Rightarrow> bool" where
  "registered name grp s =
     list_ex (\<lambda>(k, c). mName c = name \<and> mGroup c = grp) (mChannels s)"


subsection \<open>The meta document\<close>

text \<open>
  The document that \<^verbatim>\<open>_writeMetaXml\<close> builds with TinyXML is modelled as a tree; the
  string that \<^verbatim>\<open>TiXmlPrinter\<close> renders is a function of that tree and is not modelled.
  An attribute keeps the C++ type of the value it was set from.
\<close>

datatype attr_value = AttrString string | AttrInt int | AttrDouble real

datatype xml =
    Document "xml list"
  | Declaration string string string
  | Element string "(string \<times> attr_value) list" "xml list"
  | XText string

fun LinkEndChild :: "xml \<Rightarrow> xml \<Rightarrow> xml" where
  "LinkEndChild (Element n as cs) c = Element n as (cs @ [c])"
| "LinkEndChild (Document cs) c = Document (cs @ [c])"
| "LinkEndChild node c = node"

fun SetAttribute :: "string \<Rightarrow> attr_value \<Rightarrow> xml \<Rightarrow> xml" where
  "SetAttribute k v (Element n as cs) =
     (if MAP_HAS_KEY as k
      then Element n (map (\<lambda>(k', v'). if k' = k then (k', v) else (k', v')) as) cs
      else Element n (as @ [(k, v)]) cs)"
| "SetAttribute k v node = node"

fun child_count :: "xml \<Rightarrow> nat" where
  "child_count (Element n as cs) = length cs"
| "child_count (Document cs) = length cs"
| "child_count node = 0"

text \<open>A \<^verbatim>\<open>TiXmlElement*\<close> to a child of the channels element is the child's index.\<close>

fun update_child :: "nat \<Rightarrow> (xml \<Rightarrow> xml) \<Rightarrow> xml \<Rightarrow> xml" where
  "update_child i f (Element n as cs) =
     (if i < length cs then Element n as (cs[i := f (cs ! i)]) else Element n as cs)"
| "update_child i f node = node"

definition kXmlBaseNamespace :: string where
  "kXmlBaseNamespace = ''http://66laps.org/ns/openmotorsport-1.0''"

definition createGroupXmlNode :: "string \<Rightarrow> xml \<Rightarrow> xml \<times> nat" where
  "createGroupXmlNode groupName parent =
     (let name = LinkEndChild (Element ''name'' [] []) (XText groupName);
          node = LinkEndChild (Element ''group'' [] []) name
      in (LinkEndChild parent node, child_count parent))"

definition createChannelXmlNode :: "Channel \<Rightarrow> xml \<Rightarrow> xml" where
  "createChannelXmlNode channel parent =
     (let node = SetAttribute ''id'' (AttrInt (mId channel)) (Element ''channel'' [] []);
          node = (if mUnits channel \<noteq> kChannelNoUnits
                  then SetAttribute ''units'' (AttrString (mUnits channel)) node else node);
          node = (if mSampleInterval channel \<noteq> kChannelVariableSampleInterval
                  then SetAttribute ''interval'' (AttrInt (mSampleInterval channel)) node
                  else node);
          name = LinkEndChild (Element ''name'' [] []) (XText (mName channel))
      in LinkEndChild parent (LinkEndChild node name))"

text \<open>The loop over \<^verbatim>\<open>mChannels\<close> that fills the channels element, group by group.\<close>

fun writeChannelNodes :: "ChannelsMap \<Rightarrow> xml \<Rightarrow> (string \<times> nat) list \<Rightarrow> xml" where
  "writeChannelNodes [] channels groupNodes = channels"
| "writeChannelNodes ((key, channel) # rest) channels groupNodes =
     (if mGroup channel \<noteq> kChannelNoGroup then
        (case map_of groupNodes (mGroup channel) of
           None \<Rightarrow>
             (let (channels', idx) = createGroupXmlNode (mGroup channel) channels
              in writeChannelNodes rest
                   (update_child idx (createChannelXmlNode channel) channels')
                   (groupNodes @ [(mGroup channel, idx)]))
         | Some idx \<Rightarrow>
             writeChannelNodes rest
               (update_child idx (createChannelXmlNode channel) channels) groupNodes)
      else writeChannelNodes rest (createChannelXmlNode channel channels) groupNodes)"

definition writeMarkerNodes :: "int list \<Rightarrow> xml \<Rightarrow> xml" where
  "writeMarkerNodes ms markers =
     fold (\<lambda>m acc. LinkEndChild acc
             (SetAttribute ''time'' (AttrDouble (of_int m)) (Element ''marker'' [] [])))
       ms markers"

text \<open>
  \<^verbatim>\<open>Session::_writeMetaXml\<close>, statement by statement. The category element is built when
  a category is set, and the next use of \<open>node\<close> is the venue name: the source has no
  \<^verbatim>\<open>LinkEndChild\<close> for the category.
\<close>

definition writeMetaXml :: "Session \<Rightarrow> xml" where
  "writeMetaXml s =
     (let doc = LinkEndChild (Document []) (Declaration ''1.0'' [] []);
          root = SetAttribute ''xmlns'' (AttrString kXmlBaseNamespace)
                   (Element ''openmotorsport'' [] []);
          metadata = Element ''metadata'' [] [];
          node = LinkEndChild (Element ''user'' [] []) (XText (mFullName s));
          metadata = LinkEndChild metadata node;
          node = LinkEndChild (Element ''name'' [] []) (XText (mVehicleName s));
          vehicle = LinkEndChild (Element ''vehicle'' [] []) node;
          node = (if mVehicleCategory s \<noteq> kSessionNoVehicleCategory
                  then LinkEndChild (Element ''category'' [] []) (XText (mVehicleCategory s))
                  else node);
          metadata = LinkEndChild metadata vehicle;
          node = LinkEndChild (Element ''name'' [] []) (XText (mTrackName s));
          venue = LinkEndChild (Element ''venue'' [] []) node;
          metadata = LinkEndChild metadata venue;
          node = LinkEndChild (Element ''date'' [] []) (XText (GetISO8601Date (mDate s)));
          metadata = LinkEndChild metadata node;
          node = LinkEndChild (Element ''datasource'' [] []) (XText (mDataSource s));
          metadata = LinkEndChild metadata node;
          node = LinkEndChild (Element ''comments'' [] []) (XText (mComments s));
          metadata = LinkEndChild metadata node;
          channels = writeChannelNodes (mChannels s) (Element ''channels'' [] []) [];
          markers = Element ''markers'' [] [];
          markers = (if mNumSectors s \<noteq> kSessionNoSectors
                     then SetAttribute ''sectors'' (AttrInt (mNumSectors s)) markers
                     else markers);
          markers = writeMarkerNodes (mMarkers s) markers;
          root = LinkEndChild (LinkEndChild (LinkEndChild root metadata) channels) markers
      in LinkEndChild doc root)"

subsection \<open>The archive\<close>

text \<open>
  The zip layer is outside the repository: which of its calls succeed is given by a
  \<open>zip_io\<close>. An archive is the list of entries written, each with its name, its time
  stamp and its content.
\<close>

record zip_io =
  zipOpen_ok :: "string \<Rightarrow> bool"
  zipWriteNewFile_ok :: "string \<Rightarrow> bool"
  zipClose_ok :: bool

datatype entry_data = MetaXml xml | ChannelData "real list"

type_synonym archive = "(string \<times> tm \<times> entry_data) list"

fun writeChannelData :: "zip_io \<Rightarrow> tm \<Rightarrow> ChannelsMap \<Rightarrow> archive \<Rightarrow> error + archive" where
  "writeChannelData io date [] zf = Inr zf"
| "writeChannelData io date ((key, channel) # rest) zf =
     (let dataFileName = ''data/'' @ string_of_int (mId channel) @ ''.bin''
      in if \<not> zipWriteNewFile_ok io dataFileName
         then Inl (Thrown ''Failed to write channel data.'')
         else writeChannelData io date rest
                (zf @ [(dataFileName, date, ChannelData (GetBytes (mDataBuffer channel)))]))"

definition Write :: "zip_io \<Rightarrow> string \<Rightarrow> Session \<Rightarrow> error + archive" where
  "Write io fileName s =
     (if \<not> zipOpen_ok io fileName
      then Inl (Thrown ''Failed to open OpenMotorsport file writing.'')
      else let metaXml = writeMetaXml s
           in if \<not> zipWriteNewFile_ok io ''meta.xml''
              then Inl (Thrown ''Failed to write OpenMotorsport/meta.xml.'')
              else bindE (writeChannelData io (mDate s) (mChannels s)
                            [(''meta.xml'', mDate s, MetaXml metaXml)])
                     (\<lambda>zf. if \<not> zipClose_ok io
                           then Inl (Thrown ''Failed to close OpenMotorsport file.'')
                           else Inr zf))"


section \<open>ChannelDefinitions.hpp\<close>

definition kUnitsKPH :: string where "kUnitsKPH = ''kph''"
definition kUnitsGee :: string where "kUnitsGee = ''g''"
definition kUnitsDegrees :: string where "kUnitsDegrees = ''deg''"
definition kUnitsLitres :: string where "kUnitsLitres = ''l''"
definition kUnitsRPM :: string where "kUnitsRPM = ''rpm''"
definition kUnitsCelcius :: string where "kUnitsCelcius = ''c''"
definition kUnitsBoolean :: string where "kUnitsBoolean = ''boolean''"
definition kUnitsPercent :: string where "kUnitsPercent = ''%''"
definition kUnitsGear :: string where "kUnitsGear = ''gear''"
definition kUnitsMeters :: string where "kUnitsMeters = ''m''"
definition kUnitsNewtons :: string where "kUnitsNewtons = ''n''"
definition kUnitsRadiansPerSecond :: string where "kUnitsRadiansPerSecond = ''rad/sec''"
definition kUnitsPascal :: string where "kUnitsPascal = ''pa''"

definition kGroupPosition :: string where "kGroupPosition = ''Position''"
definition kChannelSpeed :: string where "kChannelSpeed = ''Speed''"
definition kChannelAccelerationX :: string where "kChannelAccelerationX = ''Acceleration X''"
definition kChannelAccelerationY :: string where "kChannelAccelerationY = ''Acceleration Y''"
definition kChannelAccelerationZ :: string where "kChannelAccelerationZ = ''Acceleration Z''"
definition kChannelPitch :: string where "kChannelPitch = ''Pitch''"
definition kChannelRoll :: string where "kChannelRoll = ''Roll''"

definition kGroupDriver :: string where "kGroupDriver = ''Driver''"
definition kChannelGear :: string where "kChannelGear = ''Gear''"
definition kChannelThrottle :: string where "kChannelThrottle = ''Throttle''"
definition kChannelBrake :: string where "kChannelBrake = ''Brake''"
definition kChannelClutch :: string where "kChannelClutch = ''Clutch''"
definition kChannelSteering :: string where "kChannelSteering = ''Steering''"

definition kGroupEngine :: string where "kGroupEngine = ''Engine''"
definition kChannelRPM :: string where "kChannelRPM = ''RPM''"
definition kChannelClutchRPM :: string where "kChannelClutchRPM = ''Clutch RPM''"
definition kChannelFuel :: string where "kChannelFuel = ''Fuel''"
definition kChannelOverheating :: string where "kChannelOverheating = ''Overheating''"

definition kGroupWheelRF :: string where "kGroupWheelRF = ''Wheel RF''"
definition kGroupWheelRR :: string where "kGroupWheelRR = ''Wheel RR''"
definition kGroupWheelLF :: string where "kGroupWheelLF = ''Wheel LF''"
definition kGroupWheelLR :: string where "kGroupWheelLR = ''Wheel RF''"

definition kChannelRotation :: string where "kChannelRotation = ''Rotation''"
definition kChannelSuspensionDeflection :: string where
  "kChannelSuspensionDeflection = ''Suspension Deflection''"
definition kChannelRideHeight :: string where "kChannelRideHeight = ''Right Height''"
definition kChannelTireLoad :: string where "kChannelTireLoad = ''Tire Load''"
definition kChannelLateralForce :: string where "kChannelLateralForce = ''Lateral Force''"
definition kChannelBrakeTemperature :: string where
  "kChannelBrakeTemperature = ''Brake Temperature''"
definition kChannelPressure :: string where "kChannelPressure = ''Pressure''"
definition kChannelTemperatureLeft :: string where
  "kChannelTemperatureLeft = ''Temperature Left''"
definition kChannelTemperatureCenter :: string where
  "kChannelTemperatureCenter = ''Temperature Center''"
definition kChannelTemperatureRight :: string where
  "kChannelTemperatureRight = ''Temperature Right''"

definition kNumberOfWheels :: nat where "kNumberOfWheels = 4"

definition kWheels :: "string list" where
  "kWheels = [kGroupWheelLF, kGroupWheelRF, kGroupWheelLR, kGroupWheelRR]"

text \<open>
  Modelled from the spec: the macros \<^verbatim>\<open>kGroupAcceleration\<close>, \<^verbatim>\<open>kChannelTime\<close>,
  \<^verbatim>\<open>kChannelDistance\<close> and \<^verbatim>\<open>kUnitsMilliseconds\<close> are used by the plug-in and missing
  from the header. The spec names the group "Acceleration" and the channels "Time" and
  "Distance" of the group "Position"; the label of the unit is taken to be "ms".
\<close>

definition kGroupAcceleration :: string where "kGroupAcceleration = ''Acceleration''"
definition kChannelTime :: string where "kChannelTime = ''Time''"
definition kChannelDistance :: string where "kChannelDistance = ''Distance''"
definition kUnitsMilliseconds :: string where "kUnitsMilliseconds = ''ms''"


section \<open>LoggingPlugin: constants, macros and host records\<close>

definition kGamePhaseNotEnteredGame :: nat where "kGamePhaseNotEnteredGame = 10"
definition kGamePhaseBeforeSession :: nat where "kGamePhaseBeforeSession = 0"
definition kGamePhaseReconnaissanceLaps :: nat where "kGamePhaseReconnaissanceLaps = 1"
definition kGamePhaseGridWalkThrough :: nat where "kGamePhaseGridWalkThrough = 2"
definition kGamePhaseFormationLap :: nat where "kGamePhaseFormationLap = 3"
definition kGamePhaseStartingLightCountdown :: nat where "kGamePhaseStartingLightCountdown = 4"
definition kGamePhaseGreenFlag :: nat where "kGamePhaseGreenFlag = 5"
definition kGamePhaseFullCourseYellow :: nat where "kGamePhaseFullCourseYellow = 6"
definition kGamePhaseSessionStopped :: nat where "kGamePhaseSessionStopped = 7"
definition kGamePhaseSessionOver :: nat where "kGamePhaseSessionOver = 8"

definition kSessions :: "string list" where
  "kSessions = [''Testing'', ''Practice'', [], [], [], ''Qualifying'', ''Warmup'', ''Race'']"

definition kWheelTemperatureLeft :: nat where "kWheelTemperatureLeft = 0"
definition kWheelTemperatureCenter :: nat where "kWheelTemperatureCenter = 1"
definition kWheelTemperatureRight :: nat where "kWheelTemperatureRight = 2"

definition kSectorsSector1 :: int where "kSectorsSector1 = 1"
definition kSectorsSector2 :: int where "kSectorsSector2 = 2"
definition kSectorsSector3 :: int where "kSectorsSector3 = 0"

definition krFactorNumberOfSectors :: int where "krFactorNumberOfSectors = 2"

definition kDataSource :: string where "kDataSource = ''rFactor''"

definition RANGE_TO_PERCENT :: "real \<Rightarrow> real" where
  "RANGE_TO_PERCENT v = 100 * v"

definition BOOL_TO_FLOAT :: "bool \<Rightarrow> real" where
  "BOOL_TO_FLOAT b = (if b then 1 else 0)"

definition MPS_TO_KPH :: "real \<Rightarrow> real" where
  "MPS_TO_KPH v = v * 3.6"

definition RAD_TO_DEG :: "real \<Rightarrow> real" where
  "RAD_TO_DEG v = v * 57.296"

text \<open>\<^verbatim>\<open>(int) (x * 1000)\<close>: the conversion to \<^verbatim>\<open>int\<close> truncates towards zero.\<close>

definition SEC_TO_MS :: "real \<Rightarrow> int" where
  "SEC_TO_MS v = (if 0 \<le> v * 1000 then \<lfloor>v * 1000\<rfloor> else \<lceil>v * 1000\<rceil>)"

definition MS_TO_SEC :: "int \<Rightarrow> real" where
  "MS_TO_SEC v = of_int v / 1000"

definition MSMS_TO_G :: "real \<Rightarrow> real" where
  "MSMS_TO_G v = v * 0.101971621"

text \<open>\<^verbatim>\<open>atan2f\<close> of the C library: the angle of the point with abscissa \<open>b\<close> and ordinate \<open>a\<close>.\<close>

definition atan2f :: "real \<Rightarrow> real \<Rightarrow> real" where
  "atan2f a b =
     (if 0 < b then arctan (a / b)
      else if b < 0 \<and> 0 \<le> a then arctan (a / b) + pi
      else if b < 0 then arctan (a / b) - pi
      else if 0 < a then pi / 2
      else if a < 0 then - (pi / 2)
      else 0)"

record TelemVect3 =
  vec_x :: real
  vec_y :: real
  vec_z :: real

definition SPEED_MPS :: "TelemVect3 \<Rightarrow> real" where
  "SPEED_MPS v = sqrt ((vec_x v * vec_x v) + (vec_y v * vec_y v) + (vec_z v * vec_z v))"

record TelemWheelV2 =
  mRotation :: real
  mSuspensionDeflection :: real
  mRideHeight :: real
  mTireLoad :: real
  mLateralForce :: real
  mBrakeTemp :: real
  mPressure :: real
  mTemperature :: "nat \<Rightarrow> real"

text \<open>The array \<^verbatim>\<open>mWheel[4]\<close> is a function of the index; only 0 to 3 are read.\<close>

record TelemInfoV2 =
  mDeltaTime :: real
  mLapNumber :: int
  mLapStartET :: real
  mPos :: TelemVect3
  mLocalVel :: TelemVect3
  mLocalAccel :: TelemVect3
  mOriX :: TelemVect3
  mOriY :: TelemVect3
  mOriZ :: TelemVect3
  mGear :: int
  mEngineRPM :: real
  mClutchRPM :: real
  mUnfilteredThrottle :: real
  mUnfilteredBrake :: real
  mUnfilteredSteering :: real
  mUnfilteredClutch :: real
  mFuel :: real
  mOverheating :: bool
  mWheel :: "nat \<Rightarrow> TelemWheelV2"

text \<open>
  Fields of the scoring records whose names are also fields of \<open>Session\<close> or of the
  plug-in carry the suffix \<open>_vi\<close> (vehicle) or \<open>_si\<close> (scoring info).
\<close>

record VehicleScoringInfoV2 =
  mIsPlayer :: bool
  mDriverName :: string
  mVehicleName_vi :: string
  mVehicleClass :: string
  mSector :: int
  mLastLapTime :: real
  mLastSector2 :: real
  mCurSector1 :: real
  mCurSector2 :: real

record ScoringInfoV2 =
  mGamePhase :: nat
  mSession_si :: int
  mTrackName_si :: string
  mNumVehicles :: int
  mVehicle :: "VehicleScoringInfoV2 list"

text \<open>
  The configuration, as its getters return it: the sampling interval read by
  \<^verbatim>\<open>GetInt\<close>, the require-one-lap flag read by \<^verbatim>\<open>GetBool\<close>, the two strings read by
  \<^verbatim>\<open>GetString\<close>.
\<close>

record Configuration =
  cfgSamplingInterval :: int
  cfgRequireOneLap :: bool
  cfgOutputDirectory :: string
  cfgFilename :: string

text \<open>
  The plug-in object. The last four fields are its surroundings: the clock that a new
  session reads, the zip layer, the log file (its messages, oldest first) and the
  archives written so far, each with its path.
\<close>

record LoggingPlugin =
  mSession :: "Session option"
  mIsLogging :: bool
  mConfiguration :: Configuration
  mSamplingInterval :: int
  mSamplingIntervalSeconds :: real
  mEnterPhase :: nat
  mCurrentPhase :: nat
  mCurrentSector :: int
  mSavedMetaData :: bool
  mTotalElapsed :: real
  mFirstLapET :: real
  mEnterLapNumber :: int
  mCurrentLapNumber :: int
  mTimeSinceLastSample :: real
  mHasPreviousPosition :: bool
  mPreviousPosition :: TelemVect3
  mCumulativeDistance :: real
  hostClock :: tm
  zipLayer :: zip_io
  logFile :: "string list"
  archives :: "(string \<times> archive) list"


section \<open>LoggingPlugin: the operations\<close>

text \<open>\<^verbatim>\<open>log\<close> appends a line to the log file; the line's level and date are left out.\<close>

definition logMessage :: "string \<Rightarrow> LoggingPlugin \<Rightarrow> LoggingPlugin" where
  "logMessage message p = p\<lparr>logFile := logFile p @ [message]\<rparr>"

text \<open>
  \<^verbatim>\<open>Startup\<close> sets the session pointer, the logging flag and the configuration; the other
  members keep the indeterminate values the object was created with. The configuration
  that \<^verbatim>\<open>Read\<close> loads is the argument \<open>cfg\<close>.
\<close>

definition Startup :: "Configuration \<Rightarrow> LoggingPlugin \<Rightarrow> LoggingPlugin" where
  "Startup cfg p =
     logMessage ''Startup''
       (p\<lparr>mSession := None, mIsLogging := False, mConfiguration := cfg,
          mSamplingInterval := cfgSamplingInterval cfg,
          mSamplingIntervalSeconds := MS_TO_SEC (cfgSamplingInterval cfg)\<rparr>)"

definition EnterRealtime :: "LoggingPlugin \<Rightarrow> LoggingPlugin" where
  "EnterRealtime p = p\<lparr>mEnterPhase := kGamePhaseNotEnteredGame\<rparr>"

definition isCurrentlyLogging :: "LoggingPlugin \<Rightarrow> bool" where
  "isCurrentlyLogging p = mIsLogging p"

subsection \<open>Creating the session\<close>

text \<open>
  \<^verbatim>\<open>CreateLoggingSession\<close> is a sequence of \<^verbatim>\<open>AddChannel\<close> calls, each with
  \<^verbatim>\<open>channelID++\<close>: the catalogue lists their (name, units, group) in program order, and
  the id of a channel is its position in that list.
\<close>

definition wheelCatalogue :: "string \<Rightarrow> (string \<times> string \<times> string) list" where
  "wheelCatalogue wheel =
     [(kChannelRotation, kUnitsRadiansPerSecond, wheel),
      (kChannelSuspensionDeflection, kUnitsMeters, wheel),
      (kChannelRideHeight, kUnitsMeters, wheel),
      (kChannelTireLoad, kUnitsNewtons, wheel),
      (kChannelLateralForce, kUnitsNewtons, wheel),
      (kChannelBrakeTemperature, kUnitsCelcius, wheel),
      (kChannelPressure, kUnitsPascal, wheel),
      (kChannelTemperatureLeft, kUnitsCelcius, wheel),
      (kChannelTemperatureCenter, kUnitsCelcius, wheel),
      (kChannelTemperatureRight, kUnitsCelcius, wheel)]"

definition catalogue :: "(string \<times> string \<times> string) list" where
  "catalogue =
     [(kChannelAccelerationX, kUnitsGee, kGroupAcceleration),
      (kChannelAccelerationY, kUnitsGee, kGroupAcceleration),
      (kChannelAccelerationZ, kUnitsGee, kGroupAcceleration),
      (kChannelSpeed, kUnitsKPH, kGroupPosition),
      (kChannelPitch, kUnitsDegrees, kGroupPosition),
      (kChannelRoll, kUnitsDegrees, kGroupPosition),
      (kChannelTime, kUnitsMilliseconds, kGroupPosition),
      (kChannelDistance, kUnitsMeters, kGroupPosition),
      (kChannelGear, kUnitsGear, kGroupDriver),
      (kChannelThrottle, kUnitsPercent, kGroupDriver),
      (kChannelBrake, kUnitsPercent, kGroupDriver),
      (kChannelClutch, kUnitsPercent, kGroupDriver),
      (kChannelSteering, kUnitsPercent, kGroupDriver),
      (kChannelRPM, kUnitsRPM, kGroupEngine),
      (kChannelClutchRPM, kUnitsRPM, kGroupEngine),
      (kChannelFuel, kUnitsLitres, kGroupEngine),
      (kChannelOverheating, kUnitsBoolean, kGroupEngine)]
     @ concat (map (\<lambda>i. wheelCatalogue (kWheels ! i)) [0..<kNumberOfWheels])"

fun addCatalogue :: "int \<Rightarrow> int \<Rightarrow> (string \<times> string \<times> string) list \<Rightarrow> Session \<Rightarrow> Session" where
  "addCatalogue interval channelID [] s = s"
| "addCatalogue interval channelID ((name, units, grp) # rest) s =
     addCatalogue interval (channelID + 1) rest
       (AddChannel (Channel_new channelID name interval units grp) s)"

definition CreateLoggingSession :: "LoggingPlugin \<Rightarrow> LoggingPlugin" where
  "CreateLoggingSession p =
     p\<lparr>mSession := Some (addCatalogue (mSamplingInterval p) 0 catalogue
                           (Session_new (hostClock p)))\<rparr>"

subsection \<open>The sampler\<close>

text \<open>\<^verbatim>\<open>mSession->GetChannel(name, group).GetDataBuffer().Write(v)\<close>.\<close>

definition WriteSample :: "string \<Rightarrow> string \<Rightarrow> real \<Rightarrow> Session \<Rightarrow> error + Session" where
  "WriteSample name grp v s =
     bindE (GetChannel name grp s)
       (\<lambda>(c, s'). Inr (s'\<lparr>mChannels :=
            map_modify (mChannels s') (channel_key name grp)
              (\<lambda>ch. ch\<lparr>mDataBuffer := DataBuffer_Write v (mDataBuffer ch)\<rparr>)\<rparr>))"

fun WriteSamples :: "(string \<times> string \<times> real) list \<Rightarrow> Session \<Rightarrow> error + Session" where
  "WriteSamples [] s = Inr s"
| "WriteSamples ((name, grp, v) # rest) s = bindE (WriteSample name grp v s) (WriteSamples rest)"

text \<open>The body of the loop over the wheels, for the wheel group \<open>g\<close>.\<close>

definition wheelSamples :: "string \<Rightarrow> TelemWheelV2 \<Rightarrow> (string \<times> string \<times> real) list" where
  "wheelSamples g wheel =
     [(kChannelSuspensionDeflection, g, mSuspensionDeflection wheel),
      (kChannelRotation, g, - mRotation wheel),
      (kChannelRideHeight, g, mRideHeight wheel),
      (kChannelTireLoad, g, mTireLoad wheel),
      (kChannelLateralForce, g, mLateralForce wheel),
      (kChannelBrakeTemperature, g, mBrakeTemp wheel),
      (kChannelPressure, g, mPressure wheel),
      (kChannelTemperatureLeft, g, mTemperature wheel kWheelTemperatureLeft),
      (kChannelTemperatureCenter, g, mTemperature wheel kWheelTemperatureCenter),
      (kChannelTemperatureRight, g, mTemperature wheel kWheelTemperatureRight)]"

text \<open>The writes of \<^verbatim>\<open>SampleBlock\<close> in program order: (channel, group, value).\<close>

definition blockSamples ::
  "TelemInfoV2 \<Rightarrow> real \<Rightarrow> real \<Rightarrow> real \<Rightarrow> real \<Rightarrow> real \<Rightarrow> (string \<times> string \<times> real) list" where
  "blockSamples info speed pitch roll totalElapsed cumulativeDistance =
     [(kChannelAccelerationX, kGroupAcceleration, MSMS_TO_G (vec_x (mLocalAccel info))),
      (kChannelAccelerationY, kGroupAcceleration, MSMS_TO_G (vec_y (mLocalAccel info))),
      (kChannelAccelerationZ, kGroupAcceleration, MSMS_TO_G (vec_z (mLocalAccel info))),
      (kChannelSpeed, kGroupPosition, MPS_TO_KPH speed),
      (kChannelPitch, kGroupPosition, pitch),
      (kChannelRoll, kGroupPosition, roll),
      (kChannelTime, kGroupPosition, of_int (SEC_TO_MS totalElapsed)),
      (kChannelDistance, kGroupPosition, cumulativeDistance),
      (kChannelGear, kGroupDriver, of_int (mGear info)),
      (kChannelThrottle, kGroupDriver, RANGE_TO_PERCENT (mUnfilteredThrottle info)),
      (kChannelBrake, kGroupDriver, RANGE_TO_PERCENT (mUnfilteredBrake info)),
      (kChannelClutch, kGroupDriver, RANGE_TO_PERCENT (mUnfilteredClutch info)),
      (kChannelSteering, kGroupDriver, RANGE_TO_PERCENT (mUnfilteredSteering info)),
      (kChannelRPM, kGroupEngine, mEngineRPM info),
      (kChannelClutchRPM, kGroupEngine, mClutchRPM info),
      (kChannelFuel, kGroupEngine, mFuel info),
      (kChannelOverheating, kGroupEngine, BOOL_TO_FLOAT (mOverheating info))]
     @ concat (map (\<lambda>i. wheelSamples (kWheels ! i) (mWheel info i)) [0..<kNumberOfWheels])"

definition SampleBlock :: "TelemInfoV2 \<Rightarrow> LoggingPlugin \<Rightarrow> error + LoggingPlugin" where
  "SampleBlock info p0 =
     (let p = p0\<lparr>mCurrentLapNumber := mLapNumber info\<rparr>;
          speed = SPEED_MPS (mLocalVel info);
          forwardVector = \<lparr>vec_x = - vec_z (mOriX info), vec_y = - vec_z (mOriY info),
                           vec_z = - vec_z (mOriZ info)\<rparr>;
          leftVector = \<lparr>vec_x = vec_x (mOriX info), vec_y = vec_x (mOriY info),
                        vec_z = vec_x (mOriZ info)\<rparr>;
          pitch = RAD_TO_DEG (atan2f (vec_y forwardVector)
                    (sqrt ((vec_x forwardVector * vec_x forwardVector) +
                           (vec_z forwardVector * vec_z forwardVector))));
          roll = RAD_TO_DEG (atan2f (vec_y leftVector)
                   (sqrt ((vec_x leftVector * vec_x leftVector) +
                          (vec_z leftVector * vec_z leftVector))));
          p = (if mHasPreviousPosition p
               then p\<lparr>mCumulativeDistance := mCumulativeDistance p +
                        sqrt ((vec_x (mPreviousPosition p) - vec_x (mPos info))\<^sup>2 +
                              (vec_y (mPreviousPosition p) - vec_y (mPos info))\<^sup>2 +
                              (vec_z (mPreviousPosition p) - vec_z (mPos info))\<^sup>2)\<rparr>
               else p);
          p = p\<lparr>mPreviousPosition := mPos info, mHasPreviousPosition := True\<rparr>
      in case mSession p of
           None \<Rightarrow> Inl NullPointer
         | Some s \<Rightarrow>
             bindE (WriteSamples
                      (blockSamples info speed pitch roll (mTotalElapsed p) (mCumulativeDistance p)) s)
               (\<lambda>s'. Inr (p\<lparr>mSession := Some s'\<rparr>)))"

subsection \<open>Starting and stopping\<close>

definition startLogging :: "TelemInfoV2 \<Rightarrow> LoggingPlugin \<Rightarrow> error + LoggingPlugin" where
  "startLogging info p =
     (let p = p\<lparr>mCurrentSector := kSectorsSector1, mSavedMetaData := False,
                mTotalElapsed := 0, mFirstLapET := 0,
                mEnterLapNumber := mLapNumber info, mCurrentLapNumber := mLapNumber info,
                mTimeSinceLastSample := 0, mIsLogging := True,
                mHasPreviousPosition := False,
                mPreviousPosition := \<lparr>vec_x = 0, vec_y = 0, vec_z = 0\<rparr>,
                mCumulativeDistance := 0\<rparr>
      in bindE (SampleBlock info (CreateLoggingSession p))
           (\<lambda>p. Inr (logMessage ''Started logging'' p)))"

text \<open>
  \<^verbatim>\<open>replace\<close>: the first occurrence of the pattern in the string, if there is one, becomes the
  replacement, which the source renders through a string stream.
\<close>

fun replace :: "string \<Rightarrow> string \<Rightarrow> string \<Rightarrow> string" where
  "replace [] pat replacement = (if pat = [] then replacement else [])"
| "replace (c # cs) pat replacement =
     (if take (length pat) (c # cs) = pat
      then replacement @ drop (length pat) (c # cs)
      else c # replace cs pat replacement)"

definition formatFileName :: "string \<Rightarrow> Session \<Rightarrow> string" where
  "formatFileName format session =
     (let format = replace format ''%Y'' (string_of_int (tm_year (mDate session) + 1900));
          format = replace format ''%M'' (string_of_int (tm_mon (mDate session)));
          format = replace format ''%D'' (string_of_int (tm_mday (mDate session)));
          format = replace format ''%H'' (string_of_int (tm_hour (mDate session)));
          format = replace format ''%M'' (string_of_int (tm_min (mDate session)));
          format = replace format ''%c'' (mVehicleName session);
          format = replace format ''%t'' (mTrackName session);
          format = replace format ''%d'' (mFullName session)
      in format)"

text \<open>The path that \<^verbatim>\<open>saveSession\<close> builds for the archive of the session.\<close>

definition archivePath :: "LoggingPlugin \<Rightarrow> Session \<Rightarrow> string" where
  "archivePath p s =
     cfgOutputDirectory (mConfiguration p) @ [CHR 0x5C] @
     formatFileName (cfgFilename (mConfiguration p)) s"

text \<open>
  \<^verbatim>\<open>saveSession\<close>. A string thrown by \<^verbatim>\<open>Write\<close> is caught and logged. The directory
  that \<^verbatim>\<open>CreateDirectory\<close> makes is not modelled.
\<close>

definition saveSession :: "LoggingPlugin \<Rightarrow> error + LoggingPlugin" where
  "saveSession p =
     (if cfgRequireOneLap (mConfiguration p) \<and> (mCurrentLapNumber p - mEnterLapNumber p) < 1
      then Inr p
      else case mSession p of
             None \<Rightarrow> Inl NullPointer
           | Some s \<Rightarrow>
               (let path = archivePath p s
                in case Write (zipLayer p) path s of
                     Inr zf \<Rightarrow> Inr (p\<lparr>archives := archives p @ [(path, zf)]\<rparr>)
                   | Inl (Thrown e) \<Rightarrow>
                       Inr (logMessage (''Exception when attempting to write file: '' @ e) p)
                   | Inl err \<Rightarrow> Inl err))"

definition stopLogging :: "LoggingPlugin \<Rightarrow> error + LoggingPlugin" where
  "stopLogging p =
     bindE (saveSession (p\<lparr>mIsLogging := False\<rparr>))
       (\<lambda>p. Inr (logMessage ''Stopped logging''
                   (p\<lparr>mSession := None, mEnterPhase := kGamePhaseNotEnteredGame\<rparr>)))"

definition ExitRealtime :: "LoggingPlugin \<Rightarrow> error + LoggingPlugin" where
  "ExitRealtime p = (if isCurrentlyLogging p then stopLogging p else Inr p)"

subsection \<open>Telemetry updates\<close>

text \<open>The part of \<^verbatim>\<open>UpdateTelemetry\<close> after the decision to go on with the frame.\<close>

definition admitFrame :: "TelemInfoV2 \<Rightarrow> LoggingPlugin \<Rightarrow> error + LoggingPlugin" where
  "admitFrame info p =
     bindE (if mLapNumber info > mEnterLapNumber p \<and> mFirstLapET p = 0
            then (case mSession p of
                    None \<Rightarrow> Inl NullPointer
                  | Some s \<Rightarrow>
                      Inr (p\<lparr>mFirstLapET := mTotalElapsed p,
                             mSession := Some (AddMarker (SEC_TO_MS (mTotalElapsed p)) s)\<rparr>))
            else Inr p)
       (\<lambda>p. bindE (if mTimeSinceLastSample p \<ge> mSamplingIntervalSeconds p
                    then bindE (SampleBlock info p) (\<lambda>p. Inr (p\<lparr>mTimeSinceLastSample := 0\<rparr>))
                    else Inr p)
          (\<lambda>p. Inr (p\<lparr>mTotalElapsed := mTotalElapsed p + mDeltaTime info,
                       mTimeSinceLastSample := mTimeSinceLastSample p + mDeltaTime info\<rparr>)))"

definition UpdateTelemetry :: "TelemInfoV2 \<Rightarrow> LoggingPlugin \<Rightarrow> error + LoggingPlugin" where
  "UpdateTelemetry info p =
     bindE (if mEnterPhase p = kGamePhaseNotEnteredGame
            then (let p = p\<lparr>mEnterPhase := mCurrentPhase p\<rparr>
                  in if mEnterPhase p = kGamePhaseBeforeSession \<or>
                        mEnterPhase p = kGamePhaseGreenFlag \<or>
                        mEnterPhase p = kGamePhaseFullCourseYellow
                     then startLogging info p
                     else Inr p)
            else Inr p)
       (\<lambda>p. if \<not> isCurrentlyLogging p
            then (if mCurrentPhase p \<ge> kGamePhaseGreenFlag \<and> mLapStartET info > 0
                  then bindE (startLogging info p) (admitFrame info)
                  else Inr p)
            else admitFrame info p)"

subsection \<open>Scoring updates\<close>

definition saveSectorTime ::
  "ScoringInfoV2 \<Rightarrow> VehicleScoringInfoV2 \<Rightarrow> LoggingPlugin \<Rightarrow> error + LoggingPlugin" where
  "saveSectorTime info vinfo p =
     (case mSession p of
        None \<Rightarrow>
          (if (mCurrentSector p = kSectorsSector1 \<and> mLastLapTime vinfo > 0) \<or>
              mCurrentSector p = kSectorsSector2 \<or> mCurrentSector p = kSectorsSector3
           then Inl NullPointer else Inr p)
      | Some s \<Rightarrow>
          (if mCurrentSector p = kSectorsSector1 then
             (if mLastLapTime vinfo > 0
              then Inr (p\<lparr>mSession := Some (AddRelativeMarker
                            (SEC_TO_MS (mLastLapTime vinfo - mLastSector2 vinfo)) s)\<rparr>)
              else Inr p)
           else if mCurrentSector p = kSectorsSector2 then
             (if mCurSector1 vinfo > 0
              then Inr (p\<lparr>mSession := Some (AddRelativeMarker (SEC_TO_MS (mCurSector1 vinfo)) s)\<rparr>)
              else Inr (p\<lparr>mSession := Some (AddMarker (SEC_TO_MS (mTotalElapsed p)) s)\<rparr>))
           else if mCurrentSector p = kSectorsSector3 then
             (if mCurSector2 vinfo > 0
              then Inr (p\<lparr>mSession := Some (AddRelativeMarker
                            (SEC_TO_MS (mCurSector2 vinfo - mCurSector1 vinfo)) s)\<rparr>)
              else Inr (p\<lparr>mSession := Some (AddMarker (SEC_TO_MS (mTotalElapsed p)) s)\<rparr>))
           else Inr p))"

definition saveMetadata ::
  "ScoringInfoV2 \<Rightarrow> VehicleScoringInfoV2 \<Rightarrow> LoggingPlugin \<Rightarrow> error + LoggingPlugin" where
  "saveMetadata info vinfo p =
     (case mSession p of
        None \<Rightarrow> Inl NullPointer
      | Some s \<Rightarrow>
          (if mSession_si info < 0 \<or> mSession_si info \<ge> int (length kSessions)
           then Inl OutOfRange
           else Inr (p\<lparr>mSession := Some
                  (SetComment (kSessions ! nat (mSession_si info))
                    (SetNumberOfSectors krFactorNumberOfSectors
                      (SetVehicleCategory (mVehicleClass vinfo)
                        (SetDataSource kDataSource
                          (SetTrack (mTrackName_si info)
                            (SetVehicle (mVehicleName_vi vinfo)
                              (SetUser (mDriverName vinfo) s)))))))\<rparr>)))"

text \<open>The body of the loop over \<^verbatim>\<open>info.mVehicle\<close> for the vehicle that is the player.\<close>

definition scorePlayer ::
  "ScoringInfoV2 \<Rightarrow> VehicleScoringInfoV2 \<Rightarrow> LoggingPlugin \<Rightarrow> error + LoggingPlugin" where
  "scorePlayer info vinfo p =
     bindE (if \<not> mSavedMetaData p
            then bindE (saveMetadata info vinfo p)
                   (\<lambda>p. Inr (p\<lparr>mSavedMetaData := \<not> mSavedMetaData p\<rparr>))
            else Inr p)
       (\<lambda>p. if mSector vinfo \<noteq> mCurrentSector p
            then saveSectorTime info vinfo (p\<lparr>mCurrentSector := mSector vinfo\<rparr>)
            else Inr p)"

text \<open>The loop: the first vehicle that is the player is handled and ends the loop.\<close>

fun scoreVehicles ::
  "ScoringInfoV2 \<Rightarrow> VehicleScoringInfoV2 list \<Rightarrow> LoggingPlugin \<Rightarrow> error + LoggingPlugin" where
  "scoreVehicles info [] p = Inr p"
| "scoreVehicles info (vinfo # rest) p =
     (if mIsPlayer vinfo then scorePlayer info vinfo p else scoreVehicles info rest p)"

definition UpdateScoring :: "ScoringInfoV2 \<Rightarrow> LoggingPlugin \<Rightarrow> error + LoggingPlugin" where
  "UpdateScoring info p =
     bindE (if mGamePhase info < mCurrentPhase p
            then (if isCurrentlyLogging p then stopLogging p else Inr p)
            else Inr p)
       (\<lambda>p. let p = p\<lparr>mCurrentPhase := mGamePhase info\<rparr>
            in if \<not> isCurrentlyLogging p then Inr p
               else scoreVehicles info (take (nat (mNumVehicles info)) (mVehicle info)) p)"

subsection \<open>Runs\<close>

text \<open>The host delivers scoring updates one after the other; an error ends the run.\<close>

fun runScoring :: "ScoringInfoV2 list \<Rightarrow> LoggingPlugin \<Rightarrow> error + LoggingPlugin" where
  "runScoring [] p = Inr p"
| "runScoring (info # rest) p = bindE (UpdateScoring info p) (runScoring rest)"

text \<open>The markers of the session of a plug-in, and of the result of an update or a run.\<close>

definition markersOf :: "LoggingPlugin \<Rightarrow> int list" where
  "markersOf p = (case mSession p of None \<Rightarrow> [] | Some s \<Rightarrow> mMarkers s)"

definition resultMarkers :: "error + LoggingPlugin \<Rightarrow> int list option" where
  "resultMarkers r = (case r of Inl e \<Rightarrow> None | Inr p \<Rightarrow> Some (markersOf p))"

text \<open>The buffer of the channel under \<open>name\<close> and \<open>grp\<close>, if there is one.\<close>

definition bufferOf :: "string \<Rightarrow> string \<Rightarrow> Session \<Rightarrow> real list option" where
  "bufferOf name grp s =
     map_option mDataBuffer (map_of (mChannels s) (channel_key name grp))"


section \<open>Notions used in the statements\<close>

text \<open>
  The values that a list of writes appends to the buffer under the key \<open>k\<close>, and the map
  after all writes of the list.
\<close>

definition samplesFor :: "string \<Rightarrow> (string \<times> string \<times> real) list \<Rightarrow> real list" where
  "samplesFor k xs = map (\<lambda>(n, g, v). v) (filter (\<lambda>(n, g, v). channel_key n g = k) xs)"

definition appendSamples :: "(string \<times> string \<times> real) list \<Rightarrow> ChannelsMap \<Rightarrow> ChannelsMap" where
  "appendSamples xs m =
     map (\<lambda>(k, c). (k, c\<lparr>mDataBuffer := mDataBuffer c @ samplesFor k xs\<rparr>)) m"

text \<open>A session that has a channel under every key of the catalogue.\<close>

definition hasCatalogue :: "Session \<Rightarrow> bool" where
  "hasCatalogue s =
     list_all (\<lambda>(nm, u, g). MAP_HAS_KEY (mChannels s) (channel_key nm g)) catalogue"

text \<open>
  The phase in which real-time driving was entered: the recorded one, or, before the
  first telemetry frame has recorded it, the current phase that this frame will record.
\<close>

definition enteredPhase :: "LoggingPlugin \<Rightarrow> nat" where
  "enteredPhase p =
     (if mEnterPhase p = kGamePhaseNotEnteredGame then mCurrentPhase p else mEnterPhase p)"

definition startImmediately :: "nat \<Rightarrow> bool" where
  "startImmediately phase =
     (phase = kGamePhaseBeforeSession \<or> phase = kGamePhaseGreenFlag \<or>
      phase = kGamePhaseFullCourseYellow)"

definition greenFlagReached :: "TelemInfoV2 \<Rightarrow> LoggingPlugin \<Rightarrow> bool" where
  "greenFlagReached info p = (mCurrentPhase p \<ge> kGamePhaseGreenFlag \<and> mLapStartET info > 0)"

text \<open>The player's entry of a scoring update: the first vehicle flagged as the player.\<close>

definition playerOf :: "ScoringInfoV2 \<Rightarrow> VehicleScoringInfoV2 option" where
  "playerOf info = find mIsPlayer (take (nat (mNumVehicles info)) (mVehicle info))"

text \<open>
  The metadata can be taken from an update when the session type indexes \<^verbatim>\<open>kSessions\<close>;
  once they are saved the session type is not read any more.
\<close>

definition metadataReady :: "ScoringInfoV2 \<Rightarrow> LoggingPlugin \<Rightarrow> bool" where
  "metadataReady info p =
     (mSavedMetaData p \<or> (0 \<le> mSession_si info \<and> mSession_si info < int (length kSessions)))"

text \<open>
  A scoring update of the out-lap: the phase does not go back, the player's entry reports
  the sector \<open>sec\<close>, and its last lap time and its two splits are 0.
\<close>

definition outLapUpdate :: "nat \<Rightarrow> int \<Rightarrow> ScoringInfoV2 \<Rightarrow> bool" where
  "outLapUpdate phase sec info =
     (phase \<le> mGamePhase info \<and> 0 \<le> mSession_si info \<and>
      mSession_si info < int (length kSessions) \<and>
      (case playerOf info of
         None \<Rightarrow> False
       | Some v \<Rightarrow> mSector v = sec \<and> mLastLapTime v = 0 \<and> mCurSector1 v = 0 \<and>
                   mCurSector2 v = 0))"

text \<open>
  What the host delivers during a run: telemetry frames and scoring updates, in the order
  of their arrival.
\<close>

datatype event = Telemetry TelemInfoV2 | Scoring ScoringInfoV2

text \<open>
  The markers that the resolver records in a run: for each scoring update of the run, in
  order, the markers by which the update extends the marker list. An error ends the run.
\<close>

fun resolverLog :: "event list \<Rightarrow> LoggingPlugin \<Rightarrow> error + int list list" where
  "resolverLog [] p = Inr []"
| "resolverLog (Telemetry info # es) p = bindE (UpdateTelemetry info p) (resolverLog es)"
| "resolverLog (Scoring info # es) p =
     bindE (UpdateScoring info p)
       (\<lambda>p'. bindE (resolverLog es p')
          (\<lambda>rest. Inr (drop (length (markersOf p)) (markersOf p') # rest)))"

text \<open>
  The elapsed time of the plug-in at each scoring update of a run that starts at the
  elapsed time \<open>e\<close>: every telemetry frame before the update has added its delta time.
\<close>

fun scoringTimes :: "event list \<Rightarrow> real \<Rightarrow> real list" where
  "scoringTimes [] e = []"
| "scoringTimes (Telemetry info # es) e = scoringTimes es (e + mDeltaTime info)"
| "scoringTimes (Scoring info # es) e = e # scoringTimes es e"

text \<open>
  A run of the out-lap: its scoring updates are out-lap updates that report the sectors
  \<open>secs\<close>, one after the other; its telemetry frames are arbitrary.
\<close>

fun outLapEvents :: "nat \<Rightarrow> int list \<Rightarrow> event list \<Rightarrow> bool" where
  "outLapEvents phase secs [] = (secs = [])"
| "outLapEvents phase secs (Telemetry info # es) = outLapEvents phase secs es"
| "outLapEvents phase [] (Scoring info # es) = False"
| "outLapEvents phase (sec # secs) (Scoring info # es) =
     (outLapUpdate phase sec info \<and> outLapEvents (mGamePhase info) secs es)"

text \<open>
  The markers of the out-lap, update by update, from the sector \<open>cur\<close> on: an update that
  reports a new sector which is the second or the third records the elapsed time of its
  arrival, in milliseconds, as the marker list stores it; any other update records nothing.
\<close>

fun outLapDeltas :: "int \<Rightarrow> int list \<Rightarrow> real list \<Rightarrow> int list list" where
  "outLapDeltas cur (sec # secs) (e # es) =
     (if sec \<noteq> cur \<and> (sec = kSectorsSector2 \<or> sec = kSectorsSector3)
      then [round_float (SEC_TO_MS e)] else []) # outLapDeltas sec secs es"
| "outLapDeltas cur secs es = []"

text \<open>
  The archives that saving the session \<open>s\<close> adds: none when the one-lap policy discards
  the session or the zip layer fails, else the one that \<^verbatim>\<open>Write\<close> returns.
\<close>

definition flushed :: "LoggingPlugin \<Rightarrow> Session \<Rightarrow> (string \<times> archive) list" where
  "flushed p s =
     (if cfgRequireOneLap (mConfiguration p) \<and> (mCurrentLapNumber p - mEnterLapNumber p) < 1
      then []
      else case Write (zipLayer p) (archivePath p s) s of
             Inr zf \<Rightarrow> [(archivePath p s, zf)]
           | Inl e \<Rightarrow> [])"


section \<open>Example inputs\<close>

definition exampleDate :: tm where
  "exampleDate = \<lparr>tm_year = 110, tm_mon = 7, tm_mday = 20, tm_hour = 9, tm_min = 20, tm_sec = 5\<rparr>"

definition slashChannel :: Channel where
  "slashChannel = Channel_new 0 ''a/b'' kChannelVariableSampleInterval kChannelNoUnits ''c''"

definition slashSession :: Session where
  "slashSession = AddChannel slashChannel (Session_new exampleDate)"

definition speedChannel :: Channel where
  "speedChannel = Channel_new 0 kChannelSpeed 200 kUnitsKPH kGroupPosition"

definition speedSession :: Session where
  "speedSession = AddChannel speedChannel (Session_new exampleDate)"

definition exampleConfig :: Configuration where
  "exampleConfig =
     \<lparr>cfgSamplingInterval = 200, cfgRequireOneLap = False,
      cfgOutputDirectory = ''LOG'', cfgFilename = ''%Y%M%D%H%M_%d_%c_%t.om''\<rparr>"

definition zipWorks :: zip_io where
  "zipWorks = \<lparr>zipOpen_ok = (\<lambda>name. True), zipWriteNewFile_ok = (\<lambda>name. True),
               zipClose_ok = True\<rparr>"

definition zeroVect :: TelemVect3 where
  "zeroVect = \<lparr>vec_x = 0, vec_y = 0, vec_z = 0\<rparr>"

text \<open>The wheel \<open>i\<close> of the example frame turns at \<open>- (40 + i)\<close> rad/s.\<close>

definition exampleWheel :: "nat \<Rightarrow> TelemWheelV2" where
  "exampleWheel i =
     \<lparr>mRotation = - (40 + real i), mSuspensionDeflection = 0.02, mRideHeight = 0.05,
      mTireLoad = 3000, mLateralForce = 100, mBrakeTemp = 350, mPressure = 150,
      mTemperature = (\<lambda>k. 340)\<rparr>"

text \<open>A telemetry frame of lap 0, 10 ms after the one before, with the lap start time \<open>et\<close>.\<close>

definition exampleFrame :: "real \<Rightarrow> TelemInfoV2" where
  "exampleFrame et =
     \<lparr>mDeltaTime = 0.01, mLapNumber = 0, mLapStartET = et,
      mPos = \<lparr>vec_x = 3, vec_y = 4, vec_z = 0\<rparr>,
      mLocalVel = \<lparr>vec_x = 0, vec_y = 0, vec_z = - 30\<rparr>,
      mLocalAccel = zeroVect,
      mOriX = \<lparr>vec_x = 1, vec_y = 0, vec_z = 0\<rparr>,
      mOriY = \<lparr>vec_x = 0, vec_y = 1, vec_z = 0\<rparr>,
      mOriZ = \<lparr>vec_x = 0, vec_y = 0, vec_z = 1\<rparr>,
      mGear = 3, mEngineRPM = 6000, mClutchRPM = 6000,
      mUnfilteredThrottle = 1, mUnfilteredBrake = 0, mUnfilteredSteering = 0,
      mUnfilteredClutch = 0, mFuel = 40, mOverheating = False,
      mWheel = exampleWheel\<rparr>"

text \<open>
  The plug-in after \<^verbatim>\<open>Startup\<close> and \<^verbatim>\<open>EnterRealtime\<close>, before the first telemetry frame,
  with the game in the phase \<open>phase\<close>.
\<close>

definition exampleEntered :: "nat \<Rightarrow> LoggingPlugin" where
  "exampleEntered phase =
     EnterRealtime (Startup exampleConfig
       \<lparr>mSession = None, mIsLogging = False, mConfiguration = exampleConfig,
        mSamplingInterval = 0, mSamplingIntervalSeconds = 0,
        mEnterPhase = 0, mCurrentPhase = phase, mCurrentSector = 0, mSavedMetaData = False,
        mTotalElapsed = 0, mFirstLapET = 0, mEnterLapNumber = 0, mCurrentLapNumber = 0,
        mTimeSinceLastSample = 0, mHasPreviousPosition = False,
        mPreviousPosition = zeroVect, mCumulativeDistance = 0,
        hostClock = exampleDate, zipLayer = zipWorks, logFile = [], archives = []\<rparr>)"

text \<open>
  The plug-in that entered during the formation lap and has seen the green flag since:
  it waits for a frame with a lap start time.
\<close>

definition exampleAwaiting :: LoggingPlugin where
  "exampleAwaiting =
     (exampleEntered kGamePhaseGreenFlag)\<lparr>mEnterPhase := kGamePhaseFormationLap\<rparr>"

text \<open>
  The plug-in during a logging run under the green flag, 12.5 s after the start, in the
  first sector of the out-lap, with the session as created and the metadata saved.
\<close>

definition exampleLogging :: LoggingPlugin where
  "exampleLogging =
     (exampleEntered kGamePhaseGreenFlag)
       \<lparr>mSession := Some (addCatalogue 200 0 catalogue (Session_new exampleDate)),
        mIsLogging := True, mEnterPhase := kGamePhaseGreenFlag,
        mCurrentSector := kSectorsSector1, mSavedMetaData := True,
        mTotalElapsed := 12.5, mTimeSinceLastSample := 0.1,
        mHasPreviousPosition := True, logFile := [''Startup'', ''Started logging'']\<rparr>"

definition exampleVehicle :: "bool \<Rightarrow> int \<Rightarrow> real \<Rightarrow> real \<Rightarrow> real \<Rightarrow> real \<Rightarrow> VehicleScoringInfoV2" where
  "exampleVehicle player sec lastLap lastS2 curS1 curS2 =
     \<lparr>mIsPlayer = player, mDriverName = ''Driver'', mVehicleName_vi = ''rF3'',
      mVehicleClass = ''F3'', mSector = sec, mLastLapTime = lastLap, mLastSector2 = lastS2,
      mCurSector1 = curS1, mCurSector2 = curS2\<rparr>"

text \<open>A scoring update with two vehicles, the second one the player's.\<close>

definition exampleScoring :: "nat \<Rightarrow> VehicleScoringInfoV2 \<Rightarrow> ScoringInfoV2" where
  "exampleScoring phase player =
     \<lparr>mGamePhase = phase, mSession_si = 0, mTrackName_si = ''Toban Raceway'',
      mNumVehicles = 2, mVehicle = [exampleVehicle False 2 80 50 25 50, player]\<rparr>"

text \<open>The scoring update of the out-lap that reports the player in the sector \<open>sec\<close>.\<close>

definition outLapScoring :: "int \<Rightarrow> ScoringInfoV2" where
  "outLapScoring sec = exampleScoring kGamePhaseGreenFlag (exampleVehicle True sec 0 0 0 0)"

text \<open>
  A run of the out-lap: seven scoring updates with the sectors 1, 1, 2, 2, 0, 0, 1 and a
  telemetry frame of 10 ms between any two of them.
\<close>

definition exampleOutLap :: "event list" where
  "exampleOutLap =
     [Scoring (outLapScoring 1), Telemetry (exampleFrame 0),
      Scoring (outLapScoring 1), Telemetry (exampleFrame 0),
      Scoring (outLapScoring 2), Telemetry (exampleFrame 0),
      Scoring (outLapScoring 2), Telemetry (exampleFrame 0),
      Scoring (outLapScoring 0), Telemetry (exampleFrame 0),
      Scoring (outLapScoring 0), Telemetry (exampleFrame 0),
      Scoring (outLapScoring 1)]"

text \<open>
  The player's entry on entering the second sector of a flying lap, and on crossing the
  line after a lap of 90 s whose second split was at 60 s.
\<close>

definition lapKnownVehicle :: VehicleScoringInfoV2 where
  "lapKnownVehicle = exampleVehicle True 2 90 60 28.5 0"

definition lapDoneVehicle :: VehicleScoringInfoV2 where
  "lapDoneVehicle = exampleVehicle True 1 90 60 0 0"

definition exampleThirdSector :: LoggingPlugin where
  "exampleThirdSector = exampleLogging\<lparr>mCurrentSector := kSectorsSector3\<rparr>"

text \<open>A scoring update after a restart of the race: the phase is back at the formation lap.\<close>

definition restartScoring :: ScoringInfoV2 where
  "restartScoring = exampleScoring kGamePhaseFormationLap (exampleVehicle True 1 0 0 0 0)"


section \<open>Properties of the session model\<close>

lemma MAP_HAS_KEY_iff: "MAP_HAS_KEY m k \<longleftrightarrow> k \<in> fst ` set m"
  by (simp add: MAP_HAS_KEY_def map_of_eq_None_iff)

lemma registered_has_key:
  assumes "keys_consistent s" "registered name grp s"
  shows "MAP_HAS_KEY (mChannels s) (channel_key name grp)"
proof -
  from assms(2) obtain k c where kc: "(k, c) \<in> set (mChannels s)" "mName c = name" "mGroup c = grp"
    by (auto simp: registered_def list_ex_iff)
  with assms(1) have "k = channel_key name grp"
    by (auto simp: keys_consistent_def list_all_iff)
  with kc(1) show ?thesis
    by (force simp: MAP_HAS_KEY_iff)
qed

lemma keys_consistent_pairs_unique:
  assumes "keys_consistent s"
  shows "pairs_unique s"
proof -
  have inj: "inj_on (\<lambda>(k, c). (mName c, mGroup c)) (set (mChannels s))"
  proof (rule inj_onI)
    fix x y
    assume x: "x \<in> set (mChannels s)" and y: "y \<in> set (mChannels s)"
      and eq: "(\<lambda>(k, c). (mName c, mGroup c)) x = (\<lambda>(k, c). (mName c, mGroup c)) y"
    obtain k c where xe: "x = (k, c)" by (cases x)
    obtain k' c' where ye: "y = (k', c')" by (cases y)
    from assms x xe have "k = channel_key (mName c) (mGroup c)"
      by (auto simp: keys_consistent_def list_all_iff)
    moreover from assms y ye have "k' = channel_key (mName c') (mGroup c')"
      by (auto simp: keys_consistent_def list_all_iff)
    ultimately have "k = k'" using eq xe ye by simp
    moreover from assms have "distinct (map fst (mChannels s))"
      by (simp add: keys_consistent_def)
    ultimately show "x = y" using x y xe ye
      by (metis eq_key_imp_eq_value)
  qed
  from assms have "distinct (mChannels s)"
    by (auto simp: keys_consistent_def dest: distinct_map [THEN iffD1])
  with inj show ?thesis
    by (simp add: pairs_unique_def distinct_map)
qed

lemma AddChannel_keys_consistent:
  assumes "keys_consistent s"
  shows "keys_consistent (AddChannel c s)"
  using assms
  by (auto simp: keys_consistent_def AddChannel_def map_insert_def MAP_HAS_KEY_iff Let_def)

lemma Session_new_keys_consistent: "keys_consistent (Session_new now)"
  by (simp add: keys_consistent_def Session_new_def)


lemma key_inj:
  assumes "CHR ''/'' \<notin> set n1" "CHR ''/'' \<notin> set n2" "channel_key n1 g1 = channel_key n2 g2"
  shows "n1 = n2 \<and> g1 = g2"
  using assms
proof (induction n1 arbitrary: n2)
  case Nil
  then show ?case by (cases n2) (auto simp: channel_key_def)
next
  case (Cons a n1)
  then show ?case by (cases n2) (auto simp: channel_key_def)
qed

lemma GetChannel_throws_iff:
  "(\<exists>e. GetChannel n g s = Inl e) \<longleftrightarrow> \<not> MAP_HAS_KEY (mChannels s) (channel_key n g)"
  by (cases "mChannels s")
     (auto simp: GetChannel_def Let_def MAP_HAS_KEY_def map_subscript_def split: option.splits)

lemma GetChannel_Inr:
  assumes "GetChannel n g s = Inr (c, s')"
  shows "s' = s \<and> map_of (mChannels s) (channel_key n g) = Some c"
  using assms
  by (auto simp: GetChannel_def Let_def MAP_HAS_KEY_def map_subscript_def
           split: option.splits if_splits)

lemma GetChannel_found:
  assumes "map_of (mChannels s) (channel_key n g) = Some c"
  shows "GetChannel n g s = Inr (c, s)"
  using assms
  by (cases "mChannels s")
     (auto simp: GetChannel_def Let_def MAP_HAS_KEY_def map_subscript_def)

subsection \<open>Markers\<close>

lemma bit_length_le: "n < 2 ^ k \<Longrightarrow> bit_length n \<le> k"
proof (induction k arbitrary: n)
  case 0
  then show ?case by (simp add: bit_length.simps)
next
  case (Suc k)
  then have "n div 2 < 2 ^ k" by simp
  then have "bit_length (n div 2) \<le> k" by (rule Suc.IH)
  then show ?case by (subst bit_length.simps) simp
qed

lemma round_float_small:
  assumes "\<bar>i\<bar> < 2 ^ 24"
  shows "round_float i = i"
proof -
  from assms have "nat \<bar>i\<bar> < 2 ^ 24"
    by (simp add: nat_less_iff)
  then have "bit_length (nat \<bar>i\<bar>) - 24 = 0"
    using bit_length_le [of "nat \<bar>i\<bar>" 24] by simp
  then show ?thesis
    by (simp add: round_float_def Let_def mult_sgn_abs)
qed

lemma bit_length_two_24: "bit_length 16777216 = 25"
  by (simp add: bit_length.simps)

lemma bit_length_two_24_1: "bit_length 16777217 = 25"
  by (simp add: bit_length.simps)

lemma round_float_two_24: "round_float 16777216 = 16777216" "round_float (- 16777216) = - 16777216"
  by (simp_all add: round_float_def Let_def bit_length_two_24)

lemma round_float_two_24_1: "round_float 16777217 = 16777216"
  by (simp add: round_float_def Let_def bit_length_two_24_1)

text \<open>An integer of magnitude up to \<open>2 ^ 24\<close> = 16777216 is a binary32 value.\<close>

lemma round_float_exact:
  assumes "\<bar>i\<bar> \<le> 2 ^ 24"
  shows "round_float i = i"
proof (cases "\<bar>i\<bar> < 2 ^ 24")
  case True
  then show ?thesis by (rule round_float_small)
next
  case False
  with assms have "i = 16777216 \<or> i = - 16777216" by auto
  then show ?thesis by (auto simp: round_float_two_24)
qed

text \<open>
  C8, as stated, fails: not every marker value is appended as it is. The marker list holds
  \<^verbatim>\<open>float\<close> values, and from \<open>2 ^ 24\<close> = 16777216 on (4 h 40 min in milliseconds) not every
  integer is one. \<^verbatim>\<open>AddRelativeMarker(1)\<close> after the marker 16777216 appends 16777216,
  not 16777217, and on an empty list \<^verbatim>\<open>AddRelativeMarker(16777217)\<close> appends 16777216.
\<close>

theorem AddRelativeMarker_rounds_counterexample:
  "mMarkers (AddRelativeMarker 1 (AddMarker 16777216 (Session_new exampleDate))) =
     [16777216, 16777216] \<and>
   mMarkers (AddRelativeMarker 16777217 (Session_new exampleDate)) = [16777216]"
proof -
  have "round_float 1 = 1"
    by (rule round_float_small) simp
  then show ?thesis
    by (simp add: AddRelativeMarker_def AddMarker_def Session_new_def round_float_two_24
          round_float_two_24_1)
qed

text \<open>
  C8, amended. For every marker value \<open>m\<close>, \<^verbatim>\<open>AddRelativeMarker(m)\<close> makes the list
  one element longer, leaves the markers already there and the channels untouched, and on
  a session without markers is \<^verbatim>\<open>AddMarker(m)\<close>. The element appended is a \<^verbatim>\<open>float\<close>: on a
  session with markers the \<^verbatim>\<open>float\<close> nearest to the last marker plus the \<^verbatim>\<open>float\<close> nearest
  to \<open>m\<close>, on a session without markers the \<^verbatim>\<open>float\<close> nearest to \<open>m\<close>. It is the last
  marker plus \<open>m\<close>, respectively \<open>m\<close> itself, when \<open>m\<close> and that sum are at most
  16777216 in magnitude.
\<close>

theorem AddRelativeMarker_appends_one:
  "(mMarkers s \<noteq> [] \<longrightarrow>
      mMarkers (AddRelativeMarker m s) =
        mMarkers s @ [round_float (last (mMarkers s) + round_float m)]) \<and>
   (mMarkers s = [] \<longrightarrow>
      mMarkers (AddRelativeMarker m s) = [round_float m] \<and>
      AddRelativeMarker m s = AddMarker m s) \<and>
   (mMarkers s \<noteq> [] \<and> \<bar>m\<bar> \<le> 2 ^ 24 \<and> \<bar>last (mMarkers s) + m\<bar> \<le> 2 ^ 24 \<longrightarrow>
      mMarkers (AddRelativeMarker m s) = mMarkers s @ [last (mMarkers s) + m]) \<and>
   (mMarkers s = [] \<and> \<bar>m\<bar> \<le> 2 ^ 24 \<longrightarrow> mMarkers (AddRelativeMarker m s) = [m]) \<and>
   length (mMarkers (AddRelativeMarker m s)) = length (mMarkers s) + 1 \<and>
   take (length (mMarkers s)) (mMarkers (AddRelativeMarker m s)) = mMarkers s \<and>
   mChannels (AddRelativeMarker m s) = mChannels s"
proof (intro conjI impI)
  show "mMarkers (AddRelativeMarker m s) =
          mMarkers s @ [round_float (last (mMarkers s) + round_float m)]"
    if "mMarkers s \<noteq> []"
    using that by (cases "mMarkers s") (simp_all add: AddRelativeMarker_def)
  show "mMarkers (AddRelativeMarker m s) = [round_float m]" if "mMarkers s = []"
    using that by (simp add: AddRelativeMarker_def)
  show "AddRelativeMarker m s = AddMarker m s" if "mMarkers s = []"
    using that by (simp add: AddRelativeMarker_def AddMarker_def)
  show "mMarkers (AddRelativeMarker m s) = mMarkers s @ [last (mMarkers s) + m]"
    if h: "mMarkers s \<noteq> [] \<and> \<bar>m\<bar> \<le> 2 ^ 24 \<and> \<bar>last (mMarkers s) + m\<bar> \<le> 2 ^ 24"
  proof -
    from h have "round_float m = m" "round_float (last (mMarkers s) + m) = last (mMarkers s) + m"
      by (simp_all add: round_float_exact)
    with h show ?thesis
      by (cases "mMarkers s") (simp_all add: AddRelativeMarker_def)
  qed
  show "mMarkers (AddRelativeMarker m s) = [m]" if "mMarkers s = [] \<and> \<bar>m\<bar> \<le> 2 ^ 24"
    using that by (simp add: AddRelativeMarker_def round_float_exact)
  show "length (mMarkers (AddRelativeMarker m s)) = length (mMarkers s) + 1"
    by (simp add: AddRelativeMarker_def)
  show "take (length (mMarkers s)) (mMarkers (AddRelativeMarker m s)) = mMarkers s"
    by (simp add: AddRelativeMarker_def)
  show "mChannels (AddRelativeMarker m s) = mChannels s"
    by (simp add: AddRelativeMarker_def)
qed

theorem AddRelativeMarker_appends_one_witness:
  "mMarkers (AddRelativeMarker 30 (Session_new exampleDate)) = [30] \<and>
   AddRelativeMarker 30 (Session_new exampleDate) = AddMarker 30 (Session_new exampleDate) \<and>
   mMarkers (AddRelativeMarker 12 (AddMarker 30 (Session_new exampleDate))) = [30, 42]"
proof -
  have r: "round_float 30 = 30" "round_float 12 = 12" "round_float 42 = 42"
    by (simp_all add: round_float_small)
  have m: "mMarkers (Session_new exampleDate) = []"
          "mMarkers (AddMarker 30 (Session_new exampleDate)) = [30]"
    by (simp_all add: Session_new_def AddMarker_def r)
  from AddRelativeMarker_appends_one [of "Session_new exampleDate" 30]
       AddRelativeMarker_appends_one [of "AddMarker 30 (Session_new exampleDate)" 12]
  show ?thesis
    by (simp add: m r)
qed

subsection \<open>Registering a channel twice\<close>

text \<open>
  C10. In a session built by \<^verbatim>\<open>AddChannel\<close>, adding a channel whose (name, group) pair is
  already registered returns the session as it was: the channel registered first stays,
  with its id, and nothing is raised. Every \<^verbatim>\<open>AddChannel\<close> keeps the channels under
  their own keys and the (name, group) pairs distinct.
\<close>

theorem AddChannel_registered_pair_unchanged:
  assumes "keys_consistent s"
  shows "(registered (mName c) (mGroup c) s \<longrightarrow> AddChannel c s = s) \<and>
         keys_consistent (AddChannel c s) \<and> pairs_unique (AddChannel c s)"
proof (intro conjI impI)
  assume "registered (mName c) (mGroup c) s"
  with assms have "MAP_HAS_KEY (mChannels s) (channel_key (mName c) (mGroup c))"
    by (rule registered_has_key)
  then show "AddChannel c s = s"
    by (simp add: AddChannel_def map_insert_def)
next
  show kc: "keys_consistent (AddChannel c s)"
    using assms by (rule AddChannel_keys_consistent)
  then show "pairs_unique (AddChannel c s)"
    by (rule keys_consistent_pairs_unique)
qed

lemma speedSession_consistent: "keys_consistent speedSession"
  unfolding speedSession_def by (intro AddChannel_keys_consistent Session_new_keys_consistent)

theorem AddChannel_registered_pair_unchanged_witness:
  "keys_consistent speedSession \<and>
   registered kChannelSpeed kGroupPosition speedSession \<and>
   AddChannel (Channel_new 7 kChannelSpeed 50 kUnitsMeters kGroupPosition) speedSession = speedSession \<and>
   pairs_unique (AddChannel (Channel_new 7 kChannelSpeed 50 kUnitsMeters kGroupPosition) speedSession)"
proof -
  have r: "registered kChannelSpeed kGroupPosition speedSession"
    by (simp add: registered_def speedSession_def speedChannel_def AddChannel_def map_insert_def
          MAP_HAS_KEY_def Session_new_def Channel_new_def)
  note th = AddChannel_registered_pair_unchanged [OF speedSession_consistent,
        of "Channel_new 7 kChannelSpeed 50 kUnitsMeters kGroupPosition"]
  have n: "mName (Channel_new 7 kChannelSpeed 50 kUnitsMeters kGroupPosition) = kChannelSpeed"
          "mGroup (Channel_new 7 kChannelSpeed 50 kUnitsMeters kGroupPosition) = kGroupPosition"
    by (simp_all add: Channel_new_def)
  from th r n show ?thesis
    using speedSession_consistent by auto
qed

subsection \<open>Looking a channel up\<close>

text \<open>
  C9 fails on the code. The header documents \<^verbatim>\<open>GetChannel\<close> as the lookup of a channel by
  name and group that throws when the channel could not be found. The key of a channel is
  its name, a slash and its group, and two pairs can have the same key: in the session
  that holds the one channel named "a/b" of the group "c", the lookup of the name "a" in
  the group "b/c", a pair that was never registered, throws nothing and returns that
  channel. For the same reason \<^verbatim>\<open>AddChannel\<close> of a channel named "a" of the group "b/c"
  leaves the session as it was: the channel is dropped.
\<close>

theorem GetChannel_returns_other_pair:
  "mChannels slashSession \<noteq> [] \<and> \<not> registered ''a'' ''b/c'' slashSession \<and>
   GetChannel ''a'' ''b/c'' slashSession = Inr (slashChannel, slashSession) \<and>
   mName slashChannel = ''a/b'' \<and> mGroup slashChannel = ''c'' \<and>
   AddChannel (Channel_new 1 ''a'' kChannelVariableSampleInterval kChannelNoUnits ''b/c'')
     slashSession = slashSession"
  by (simp add: slashSession_def slashChannel_def AddChannel_def map_insert_def MAP_HAS_KEY_def
        Session_new_def Channel_new_def registered_def GetChannel_def channel_key_def
        map_subscript_def Let_def)

text \<open>
  Where no name contains a slash the lookup is as documented. In general
  \<^verbatim>\<open>GetChannel(name, group)\<close> throws exactly when no channel is stored under the key made
  of the name, a slash and the group, which is the case in a session without channels;
  when it returns, it returns the channel stored under that key and the session is as
  before. In a session built by \<^verbatim>\<open>AddChannel\<close> where neither the requested name nor the
  name of a channel contains a slash, it throws exactly when the session has no channels
  or the pair is not registered, and the channel returned has the requested name and
  group.
\<close>

lemma GetChannel_throws_iff_key_missing:
  "((\<exists>e. GetChannel n g s = Inl e) \<longleftrightarrow> \<not> MAP_HAS_KEY (mChannels s) (channel_key n g)) \<and>
   (mChannels s = [] \<longrightarrow> (\<exists>e. GetChannel n g s = Inl e)) \<and>
   (\<forall>c s'. GetChannel n g s = Inr (c, s') \<longrightarrow>
       s' = s \<and> map_of (mChannels s) (channel_key n g) = Some c) \<and>
   (keys_consistent s \<and> CHR ''/'' \<notin> set n \<and>
    list_all (\<lambda>(k, c). CHR ''/'' \<notin> set (mName c)) (mChannels s) \<longrightarrow>
      ((\<exists>e. GetChannel n g s = Inl e) \<longleftrightarrow> mChannels s = [] \<or> \<not> registered n g s) \<and>
      (\<forall>c s'. GetChannel n g s = Inr (c, s') \<longrightarrow> mName c = n \<and> mGroup c = g))"
proof (intro conjI impI allI)
  show t: "(\<exists>e. GetChannel n g s = Inl e) \<longleftrightarrow> \<not> MAP_HAS_KEY (mChannels s) (channel_key n g)"
    by (rule GetChannel_throws_iff)
  show "\<exists>e. GetChannel n g s = Inl e" if "mChannels s = []"
    using that by (simp add: GetChannel_def)
  show "s' = s" "map_of (mChannels s) (channel_key n g) = Some c"
    if "GetChannel n g s = Inr (c, s')" for c s'
    using GetChannel_Inr [OF that] by simp_all
next
  assume h: "keys_consistent s \<and> CHR ''/'' \<notin> set n \<and>
    list_all (\<lambda>(k, c). CHR ''/'' \<notin> set (mName c)) (mChannels s)"
  have key_reg: "MAP_HAS_KEY (mChannels s) (channel_key n g) \<longleftrightarrow> registered n g s"
  proof
    assume "MAP_HAS_KEY (mChannels s) (channel_key n g)"
    then obtain c where c: "(channel_key n g, c) \<in> set (mChannels s)"
      by (auto simp: MAP_HAS_KEY_iff)
    with h have "channel_key n g = channel_key (mName c) (mGroup c)" "CHR ''/'' \<notin> set (mName c)"
      by (auto simp: keys_consistent_def list_all_iff)
    with h have "mName c = n \<and> mGroup c = g"
      using key_inj [of n "mName c" g "mGroup c"] by simp
    with c show "registered n g s"
      by (auto simp: registered_def list_ex_iff)
  next
    assume "registered n g s"
    with h show "MAP_HAS_KEY (mChannels s) (channel_key n g)"
      by (simp add: registered_has_key)
  qed
  show "(\<exists>e. GetChannel n g s = Inl e) \<longleftrightarrow> mChannels s = [] \<or> \<not> registered n g s"
    using key_reg GetChannel_throws_iff [of n g s]
    by (auto simp: registered_def)
  show "mName c = n" "mGroup c = g" if "GetChannel n g s = Inr (c, s')" for c s'
  proof -
    from GetChannel_Inr [OF that] have "(channel_key n g, c) \<in> set (mChannels s)"
      by (auto dest: map_of_SomeD)
    with h have "channel_key n g = channel_key (mName c) (mGroup c)" "CHR ''/'' \<notin> set (mName c)"
      by (auto simp: keys_consistent_def list_all_iff)
    with h have "mName c = n \<and> mGroup c = g"
      using key_inj [of n "mName c" g "mGroup c"] by simp
    then show "mName c = n" "mGroup c = g" by simp_all
  qed
qed

lemma GetChannel_throws_iff_key_missing_example:
  "GetChannel kChannelSpeed kGroupPosition speedSession = Inr (speedChannel, speedSession) \<and>
   keys_consistent speedSession \<and>
   mName speedChannel = kChannelSpeed \<and> mGroup speedChannel = kGroupPosition \<and>
   GetChannel kChannelPitch kGroupPosition speedSession = Inl (Thrown ''Channel does not exist.'') \<and>
   \<not> registered kChannelPitch kGroupPosition speedSession \<and>
   GetChannel kChannelSpeed kGroupPosition (Session_new exampleDate) = Inl (Thrown ''No channels.'')"
proof -
  have g: "GetChannel kChannelSpeed kGroupPosition speedSession = Inr (speedChannel, speedSession)"
    by (simp add: speedSession_def speedChannel_def AddChannel_def map_insert_def MAP_HAS_KEY_def
        Session_new_def Channel_new_def GetChannel_def map_subscript_def Let_def)
  have t: "GetChannel kChannelPitch kGroupPosition speedSession = Inl (Thrown ''Channel does not exist.'')"
    by (simp add: speedSession_def speedChannel_def AddChannel_def map_insert_def MAP_HAS_KEY_def
        Session_new_def Channel_new_def GetChannel_def map_subscript_def Let_def channel_key_def
        kChannelPitch_def kChannelSpeed_def kGroupPosition_def)
  have e: "GetChannel kChannelSpeed kGroupPosition (Session_new exampleDate) = Inl (Thrown ''No channels.'')"
    by (simp add: Session_new_def GetChannel_def)
  have sl: "CHR ''/'' \<notin> set kChannelSpeed \<and> CHR ''/'' \<notin> set kChannelPitch \<and>
      list_all (\<lambda>(k, c). CHR ''/'' \<notin> set (mName c)) (mChannels speedSession)"
    by (simp add: speedSession_def speedChannel_def AddChannel_def map_insert_def MAP_HAS_KEY_def
        Session_new_def Channel_new_def kChannelPitch_def kChannelSpeed_def)
  have ne: "mChannels speedSession \<noteq> []"
    by (simp add: speedSession_def AddChannel_def map_insert_def MAP_HAS_KEY_def Session_new_def)
  have nr: "\<not> registered kChannelPitch kGroupPosition speedSession"
    using t sl ne speedSession_consistent
      GetChannel_throws_iff_key_missing [of kChannelPitch kGroupPosition speedSession]
    by blast
  have nm: "mName speedChannel = kChannelSpeed \<and> mGroup speedChannel = kGroupPosition"
    using g sl speedSession_consistent
      GetChannel_throws_iff_key_missing [of kChannelSpeed kGroupPosition speedSession]
    by blast
  from g t e nr nm speedSession_consistent show ?thesis
    by simp
qed


section \<open>Properties of the sampler\<close>

lemma map_modify_keys: "map fst (map_modify m k f) = map fst m"
  by (induction m) (auto simp: map_modify_def)

lemma MAP_HAS_KEY_map_modify: "MAP_HAS_KEY (map_modify m k f) k' = MAP_HAS_KEY m k'"
  using map_modify_keys [of m k f]
  by (metis MAP_HAS_KEY_iff set_map)

lemma appendSamples_keys: "map fst (appendSamples xs m) = map fst m"
  by (induction m) (auto simp: appendSamples_def)

lemma MAP_HAS_KEY_appendSamples: "MAP_HAS_KEY (appendSamples xs m) k = MAP_HAS_KEY m k"
  using appendSamples_keys [of xs m]
  by (metis MAP_HAS_KEY_iff set_map)

lemma appendSamples_Nil: "appendSamples [] m = m"
  by (induction m) (auto simp: appendSamples_def samplesFor_def)

lemma appendSamples_Cons:
  "appendSamples xs (map_modify m (channel_key n g) (\<lambda>ch. ch\<lparr>mDataBuffer := mDataBuffer ch @ [v]\<rparr>)) =
   appendSamples ((n, g, v) # xs) m"
  by (induction m) (auto simp: appendSamples_def samplesFor_def map_modify_def)

lemma map_of_appendSamples:
  "map_of (appendSamples xs m) k =
     map_option (\<lambda>c. c\<lparr>mDataBuffer := mDataBuffer c @ samplesFor k xs\<rparr>) (map_of m k)"
  by (induction m) (auto simp: appendSamples_def)

lemma WriteSample_present:
  assumes "MAP_HAS_KEY (mChannels s) (channel_key n g)"
  shows "WriteSample n g v s =
           Inr (s\<lparr>mChannels := map_modify (mChannels s) (channel_key n g)
                   (\<lambda>ch. ch\<lparr>mDataBuffer := mDataBuffer ch @ [v]\<rparr>)\<rparr>)"
proof -
  from assms obtain c where c: "map_of (mChannels s) (channel_key n g) = Some c"
    by (auto simp: MAP_HAS_KEY_def)
  then have "GetChannel n g s = Inr (c, s)"
    by (rule GetChannel_found)
  then show ?thesis
    by (simp add: WriteSample_def bindE_def DataBuffer_Write_def)
qed

lemma WriteSamples_present:
  assumes "\<forall>(n, g, v) \<in> set xs. MAP_HAS_KEY (mChannels s) (channel_key n g)"
  shows "WriteSamples xs s = Inr (s\<lparr>mChannels := appendSamples xs (mChannels s)\<rparr>)"
  using assms
proof (induction xs arbitrary: s)
  case Nil
  show ?case by (simp add: appendSamples_Nil)
next
  case (Cons x xs)
  obtain n g v where x: "x = (n, g, v)" by (cases x)
  let ?s1 = "s\<lparr>mChannels := map_modify (mChannels s) (channel_key n g)
                   (\<lambda>ch. ch\<lparr>mDataBuffer := mDataBuffer ch @ [v]\<rparr>)\<rparr>"
  from Cons.prems x have w: "WriteSample n g v s = Inr ?s1"
    by (simp add: WriteSample_present)
  from Cons.prems have "\<forall>(n, g, v) \<in> set xs. MAP_HAS_KEY (mChannels ?s1) (channel_key n g)"
    by (auto simp: MAP_HAS_KEY_map_modify)
  then have "WriteSamples xs ?s1 = Inr (?s1\<lparr>mChannels := appendSamples xs (mChannels ?s1)\<rparr>)"
    by (rule Cons.IH)
  with w x show ?case
    by (simp add: bindE_def appendSamples_Cons)
qed

lemma addCatalogue_keys:
  "fst ` set (mChannels (addCatalogue iv n cat s)) =
     fst ` set (mChannels s) \<union> (\<lambda>(nm, u, g). channel_key nm g) ` set cat"
proof (induction cat arbitrary: n s)
  case Nil
  show ?case by simp
next
  case (Cons x cat)
  obtain nm u g where x: "x = (nm, u, g)" by (cases x)
  show ?case
    by (auto simp: x Cons.IH AddChannel_def map_insert_def MAP_HAS_KEY_iff Channel_new_def Let_def)
qed

lemma addCatalogue_fields:
  "mMarkers (addCatalogue iv n cat s) = mMarkers s \<and>
   (list_all (\<lambda>(k, c). mDataBuffer c = []) (mChannels s) \<longrightarrow>
      list_all (\<lambda>(k, c). mDataBuffer c = []) (mChannels (addCatalogue iv n cat s)))"
proof (induction cat arbitrary: n s)
  case Nil
  show ?case by simp
next
  case (Cons x cat)
  obtain nm u g where x: "x = (nm, u, g)" by (cases x)
  show ?case
    by (auto simp: x Cons.IH AddChannel_def map_insert_def Channel_new_def Let_def)
qed

lemma upt4: "[0..<4] = [0, 1, 2, 3]"
  by (simp add: upt_rec)

lemma wheel_keys:
  "(\<lambda>(n, g, v). channel_key n g) ` set (wheelSamples w wheel) =
   (\<lambda>(nm, u, g). channel_key nm g) ` set (wheelCatalogue w)"
  by (auto simp: wheelSamples_def wheelCatalogue_def)

lemma blockSamples_keys:
  "(\<lambda>(n, g, v). channel_key n g) ` set (blockSamples info a b c d e) =
   (\<lambda>(nm, u, g). channel_key nm g) ` set catalogue"
  unfolding blockSamples_def catalogue_def set_append image_Un
  by (rule arg_cong2 [where f = "(\<union>)"])
     (simp_all add: kNumberOfWheels_def upt4 image_Un wheel_keys)


lemmas channel_name_defs = kGroupPosition_def
  kChannelSpeed_def kChannelAccelerationX_def kChannelAccelerationY_def kChannelAccelerationZ_def
  kChannelPitch_def kChannelRoll_def kGroupDriver_def kChannelGear_def kChannelThrottle_def
  kChannelBrake_def kChannelClutch_def kChannelSteering_def kGroupEngine_def kChannelRPM_def
  kChannelClutchRPM_def kChannelFuel_def kChannelOverheating_def kGroupWheelRF_def
  kGroupWheelRR_def kGroupWheelLF_def kGroupWheelLR_def kChannelRotation_def
  kChannelSuspensionDeflection_def kChannelRideHeight_def kChannelTireLoad_def
  kChannelLateralForce_def kChannelBrakeTemperature_def kChannelPressure_def
  kChannelTemperatureLeft_def kChannelTemperatureCenter_def kChannelTemperatureRight_def
  kGroupAcceleration_def kChannelTime_def kChannelDistance_def

lemma samplesFor_rotation_RF:
  "samplesFor (channel_key kChannelRotation kGroupWheelRF) (blockSamples info a b c d e) =
     [- mRotation (mWheel info 1), - mRotation (mWheel info 2)]"
  by (simp add: samplesFor_def blockSamples_def wheelSamples_def kWheels_def kNumberOfWheels_def
        upt4 channel_key_def channel_name_defs)

lemma samplesFor_rotation_LF:
  "samplesFor (channel_key kChannelRotation kGroupWheelLF) (blockSamples info a b c d e) =
     [- mRotation (mWheel info 0)]"
  by (simp add: samplesFor_def blockSamples_def wheelSamples_def kWheels_def kNumberOfWheels_def
        upt4 channel_key_def channel_name_defs)

lemma hasCatalogue_iff:
  "hasCatalogue s \<longleftrightarrow> (\<lambda>(nm, u, g). channel_key nm g) ` set catalogue \<subseteq> fst ` set (mChannels s)"
  by (auto simp: hasCatalogue_def list_all_iff MAP_HAS_KEY_iff)

lemma hasCatalogue_blockSamples:
  assumes "hasCatalogue s"
  shows "\<forall>(n, g, v) \<in> set (blockSamples info a b c d e). MAP_HAS_KEY (mChannels s) (channel_key n g)"
proof -
  have "(\<lambda>(n, g, v). channel_key n g) ` set (blockSamples info a b c d e) \<subseteq> fst ` set (mChannels s)"
    using assms by (simp add: blockSamples_keys hasCatalogue_iff)
  then show ?thesis
    by (auto simp: MAP_HAS_KEY_iff)
qed

lemma hasCatalogue_appendSamples:
  "hasCatalogue (s\<lparr>mChannels := appendSamples xs (mChannels s)\<rparr>) = hasCatalogue s"
  by (simp add: hasCatalogue_def MAP_HAS_KEY_appendSamples)

lemma hasCatalogue_created: "hasCatalogue (addCatalogue iv 0 catalogue (Session_new d))"
  by (simp add: hasCatalogue_iff addCatalogue_keys)

lemma SampleBlock_sampled:
  assumes "mSession p = Some s" "hasCatalogue s"
  shows "\<exists>a b c cd. SampleBlock info p =
           Inr (p\<lparr>mCurrentLapNumber := mLapNumber info, mCumulativeDistance := cd,
                  mPreviousPosition := mPos info, mHasPreviousPosition := True,
                  mSession := Some (s\<lparr>mChannels :=
                     appendSamples (blockSamples info a b c (mTotalElapsed p) cd) (mChannels s)\<rparr>)\<rparr>) \<and>
           (\<not> mHasPreviousPosition p \<longrightarrow> cd = mCumulativeDistance p)"
proof (cases "mHasPreviousPosition p")
  case True
  show ?thesis
    apply (simp add: SampleBlock_def Let_def assms(1) True)
    apply (simp add: WriteSamples_present [OF hasCatalogue_blockSamples [OF assms(2)]] bindE_def)
    apply blast
    done
next
  case False
  show ?thesis
    apply (simp add: SampleBlock_def Let_def assms(1) False)
    apply (simp add: WriteSamples_present [OF hasCatalogue_blockSamples [OF assms(2)]] bindE_def)
    apply blast
    done
qed

lemma created_buffer_empty:
  assumes "map_of (mChannels (addCatalogue iv 0 catalogue (Session_new d))) k = Some c"
  shows "mDataBuffer c = []"
proof -
  have "list_all (\<lambda>(k, c). mDataBuffer c = []) (mChannels (addCatalogue iv 0 catalogue (Session_new d)))"
    using addCatalogue_fields [of iv 0 catalogue "Session_new d"]
    by (simp add: Session_new_def)
  with assms show ?thesis
    by (auto simp: list_all_iff dest: map_of_SomeD)
qed

lemma bufferOf_sampled:
  assumes "(nm, u, g) \<in> set catalogue"
  shows "bufferOf nm g
           ((addCatalogue iv 0 catalogue (Session_new d))\<lparr>mChannels :=
               appendSamples xs (mChannels (addCatalogue iv 0 catalogue (Session_new d)))\<rparr>) =
         Some (samplesFor (channel_key nm g) xs)"
proof -
  let ?s0 = "addCatalogue iv 0 catalogue (Session_new d)"
  from assms have "channel_key nm g \<in> fst ` set (mChannels ?s0)"
    by (force simp: addCatalogue_keys)
  then obtain c where c: "map_of (mChannels ?s0) (channel_key nm g) = Some c"
    by (metis MAP_HAS_KEY_iff MAP_HAS_KEY_def not_None_eq)
  then have "mDataBuffer c = []"
    by (rule created_buffer_empty)
  with c show ?thesis
    by (simp add: bufferOf_def map_of_appendSamples)
qed

lemma rotation_in_catalogue:
  "(kChannelRotation, kUnitsRadiansPerSecond, kGroupWheelRF) \<in> set catalogue"
  "(kChannelRotation, kUnitsRadiansPerSecond, kGroupWheelLF) \<in> set catalogue"
  by (simp_all add: catalogue_def wheelCatalogue_def kWheels_def kNumberOfWheels_def upt4)

lemma startLogging_started:
  "\<exists>s'. startLogging info p =
      Inr (p\<lparr>mCurrentSector := kSectorsSector1, mSavedMetaData := False,
             mTotalElapsed := 0, mFirstLapET := 0,
             mEnterLapNumber := mLapNumber info, mCurrentLapNumber := mLapNumber info,
             mTimeSinceLastSample := 0, mIsLogging := True,
             mHasPreviousPosition := True, mPreviousPosition := mPos info,
             mCumulativeDistance := 0, mSession := Some s',
             logFile := logFile p @ [''Started logging'']\<rparr>) \<and>
      hasCatalogue s' \<and> mMarkers s' = [] \<and>
      bufferOf kChannelRotation kGroupWheelRF s' =
        Some [- mRotation (mWheel info 1), - mRotation (mWheel info 2)] \<and>
      bufferOf kChannelRotation kGroupWheelLF s' = Some [- mRotation (mWheel info 0)]"
proof -
  let ?p1 = "p\<lparr>mCurrentSector := kSectorsSector1, mSavedMetaData := False,
                mTotalElapsed := 0, mFirstLapET := 0,
                mEnterLapNumber := mLapNumber info, mCurrentLapNumber := mLapNumber info,
                mTimeSinceLastSample := 0, mIsLogging := True,
                mHasPreviousPosition := False,
                mPreviousPosition := \<lparr>vec_x = 0, vec_y = 0, vec_z = 0\<rparr>,
                mCumulativeDistance := 0\<rparr>"
  let ?s0 = "addCatalogue (mSamplingInterval p) 0 catalogue (Session_new (hostClock p))"
  have s0: "mSession (CreateLoggingSession ?p1) = Some ?s0"
    by (simp add: CreateLoggingSession_def)
  have cat: "hasCatalogue ?s0"
    by (rule hasCatalogue_created)
  from SampleBlock_sampled [OF s0 cat, of info]
  obtain a b c cd where sb: "SampleBlock info (CreateLoggingSession ?p1) =
      Inr ((CreateLoggingSession ?p1)\<lparr>mCurrentLapNumber := mLapNumber info, mCumulativeDistance := cd,
             mPreviousPosition := mPos info, mHasPreviousPosition := True,
             mSession := Some (?s0\<lparr>mChannels :=
                appendSamples (blockSamples info a b c (mTotalElapsed (CreateLoggingSession ?p1)) cd)
                  (mChannels ?s0)\<rparr>)\<rparr>)"
    and cd: "\<not> mHasPreviousPosition (CreateLoggingSession ?p1) \<longrightarrow>
               cd = mCumulativeDistance (CreateLoggingSession ?p1)"
    by blast
  from cd have cd0: "cd = 0"
    by (simp add: CreateLoggingSession_def)
  let ?xs = "blockSamples info a b c (mTotalElapsed (CreateLoggingSession ?p1)) cd"
  let ?s' = "?s0\<lparr>mChannels := appendSamples ?xs (mChannels ?s0)\<rparr>"
  have "startLogging info p =
      Inr (p\<lparr>mCurrentSector := kSectorsSector1, mSavedMetaData := False,
             mTotalElapsed := 0, mFirstLapET := 0,
             mEnterLapNumber := mLapNumber info, mCurrentLapNumber := mLapNumber info,
             mTimeSinceLastSample := 0, mIsLogging := True,
             mHasPreviousPosition := True, mPreviousPosition := mPos info,
             mCumulativeDistance := 0, mSession := Some ?s',
             logFile := logFile p @ [''Started logging'']\<rparr>)"
    unfolding startLogging_def Let_def sb bindE_def
    by (simp add: cd0 CreateLoggingSession_def logMessage_def)
  moreover have "hasCatalogue ?s'"
    using cat by (simp add: hasCatalogue_appendSamples)
  moreover have "mMarkers ?s' = []"
    using addCatalogue_fields [of "mSamplingInterval p" 0 catalogue "Session_new (hostClock p)"]
    by (simp add: Session_new_def)
  moreover have "bufferOf kChannelRotation kGroupWheelRF ?s' =
        Some [- mRotation (mWheel info 1), - mRotation (mWheel info 2)]"
    by (simp add: bufferOf_sampled [OF rotation_in_catalogue(1)] samplesFor_rotation_RF)
  moreover have "bufferOf kChannelRotation kGroupWheelLF ?s' = Some [- mRotation (mWheel info 0)]"
    by (simp add: bufferOf_sampled [OF rotation_in_catalogue(2)] samplesFor_rotation_LF)
  ultimately show ?thesis
    by blast
qed


section \<open>Properties of the scoring updates\<close>

lemma scoreVehicles_find:
  "scoreVehicles info vs p =
     (case find mIsPlayer vs of None \<Rightarrow> Inr p | Some v \<Rightarrow> scorePlayer info v p)"
  by (induction vs) simp_all

lemma UpdateScoring_logging:
  assumes "mIsLogging p" "mCurrentPhase p \<le> mGamePhase info"
  shows "UpdateScoring info p =
           (case playerOf info of
              None \<Rightarrow> Inr (p\<lparr>mCurrentPhase := mGamePhase info\<rparr>)
            | Some v \<Rightarrow> scorePlayer info v (p\<lparr>mCurrentPhase := mGamePhase info\<rparr>))"
  using assms
  by (simp add: UpdateScoring_def bindE_def isCurrentlyLogging_def Let_def scoreVehicles_find
        playerOf_def)

lemma UpdateScoring_not_logging:
  assumes "\<not> mIsLogging p"
  shows "UpdateScoring info p = Inr (p\<lparr>mCurrentPhase := mGamePhase info\<rparr>)"
  using assms
  by (simp add: UpdateScoring_def bindE_def isCurrentlyLogging_def Let_def)

lemma saveMetadata_saved:
  assumes "mSession p = Some s" "0 \<le> mSession_si info" "mSession_si info < int (length kSessions)"
  shows "\<exists>s'. saveMetadata info v p = Inr (p\<lparr>mSession := Some s'\<rparr>) \<and>
               mMarkers s' = mMarkers s \<and> mChannels s' = mChannels s"
  using assms
  apply (simp add: saveMetadata_def SetComment_def SetNumberOfSectors_def SetVehicleCategory_def
        SetDataSource_def SetTrack_def SetVehicle_def SetUser_def)
  apply (rule exI, rule conjI, rule refl)
  apply simp
  done

text \<open>The player's branch: the metadata step, then the sector step.\<close>

lemma scorePlayer_step:
  assumes "mSession p = Some s" "metadataReady info p"
  shows "\<exists>s1. mMarkers s1 = mMarkers s \<and> mChannels s1 = mChannels s \<and>
           scorePlayer info v p =
             (if mSector v \<noteq> mCurrentSector p
              then saveSectorTime info v
                     (p\<lparr>mSession := Some s1, mSavedMetaData := True, mCurrentSector := mSector v\<rparr>)
              else Inr (p\<lparr>mSession := Some s1, mSavedMetaData := True\<rparr>))"
proof (cases "mSavedMetaData p")
  case True
  have "p\<lparr>mSession := Some s, mSavedMetaData := True\<rparr> = p"
    using assms(1) True by simp
  moreover have "p\<lparr>mSession := Some s, mSavedMetaData := True, mCurrentSector := mSector v\<rparr> = p\<lparr>mCurrentSector := mSector v\<rparr>"
    using assms(1) True by simp
  ultimately show ?thesis
    using True by (intro exI [where x = s]) (simp add: scorePlayer_def bindE_def)
next
  case False
  with assms(2) have r: "0 \<le> mSession_si info" "mSession_si info < int (length kSessions)"
    by (simp_all add: metadataReady_def)
  from saveMetadata_saved [OF assms(1) r, of v]
  obtain s' where s': "saveMetadata info v p = Inr (p\<lparr>mSession := Some s'\<rparr>)"
    "mMarkers s' = mMarkers s" "mChannels s' = mChannels s"
    by blast
  show ?thesis
    using False s' by (intro exI [where x = s']) (simp add: scorePlayer_def bindE_def)
qed


lemma UpdateScoring_player:
  assumes "mIsLogging p" "mSession p = Some s" "mCurrentPhase p \<le> mGamePhase info"
    "metadataReady info p" "playerOf info = Some v"
  shows "\<exists>s1. mMarkers s1 = mMarkers s \<and> mChannels s1 = mChannels s \<and>
           UpdateScoring info p =
             (if mSector v \<noteq> mCurrentSector p
              then saveSectorTime info v
                     (p\<lparr>mCurrentPhase := mGamePhase info, mSession := Some s1,
                        mSavedMetaData := True, mCurrentSector := mSector v\<rparr>)
              else Inr (p\<lparr>mCurrentPhase := mGamePhase info, mSession := Some s1,
                          mSavedMetaData := True\<rparr>))"
proof -
  let ?p = "p\<lparr>mCurrentPhase := mGamePhase info\<rparr>"
  have u: "UpdateScoring info p = scorePlayer info v ?p"
    using assms(1,3,5) by (simp add: UpdateScoring_logging)
  have "mSession ?p = Some s" "metadataReady info ?p"
    using assms(2,4) by (simp_all add: metadataReady_def)
  from scorePlayer_step [OF this, of v] u show ?thesis
    by simp
qed

lemma mMarkers_AddRelativeMarker:
  "mMarkers (AddRelativeMarker m s) =
     (if mMarkers s = [] then [round_float m]
      else mMarkers s @ [round_float (last (mMarkers s) + round_float m)])"
  by (cases "mMarkers s") (simp_all add: AddRelativeMarker_def)

lemma outLap_update:
  assumes "mIsLogging p" "mSession p = Some s" "outLapUpdate (mCurrentPhase p) sec info"
  shows "\<exists>s'. UpdateScoring info p =
             Inr (p\<lparr>mCurrentPhase := mGamePhase info, mSession := Some s',
                    mSavedMetaData := True, mCurrentSector := sec\<rparr>) \<and>
           mChannels s' = mChannels s \<and>
           mMarkers s' = mMarkers s @
             (if sec \<noteq> mCurrentSector p \<and> (sec = kSectorsSector2 \<or> sec = kSectorsSector3)
              then [round_float (SEC_TO_MS (mTotalElapsed p))] else [])"
proof -
  from assms(3) obtain v where v: "playerOf info = Some v" "mSector v = sec"
    "mLastLapTime v = 0" "mCurSector1 v = 0" "mCurSector2 v = 0"
    and ph: "mCurrentPhase p \<le> mGamePhase info" and md: "metadataReady info p"
    by (auto simp: outLapUpdate_def metadataReady_def split: option.splits)
  from UpdateScoring_player [OF assms(1,2) ph md v(1)]
  obtain s1 where s1: "mMarkers s1 = mMarkers s" "mChannels s1 = mChannels s"
    and u: "UpdateScoring info p =
             (if mSector v \<noteq> mCurrentSector p
              then saveSectorTime info v
                     (p\<lparr>mCurrentPhase := mGamePhase info, mSession := Some s1,
                        mSavedMetaData := True, mCurrentSector := mSector v\<rparr>)
              else Inr (p\<lparr>mCurrentPhase := mGamePhase info, mSession := Some s1,
                          mSavedMetaData := True\<rparr>))"
    by blast
  show ?thesis
  proof (cases "sec = mCurrentSector p")
    case True
    have "p\<lparr>mCurrentPhase := mGamePhase info, mSession := Some s1, mSavedMetaData := True\<rparr> =
          p\<lparr>mCurrentPhase := mGamePhase info, mSession := Some s1, mSavedMetaData := True,
            mCurrentSector := sec\<rparr>"
      using True by simp
    with u v(2) True s1 show ?thesis
      by (intro exI [where x = s1]) simp
  next
    case False
    consider "sec = kSectorsSector2" | "sec = kSectorsSector3" | "sec = kSectorsSector1"
      | "sec \<noteq> kSectorsSector1" "sec \<noteq> kSectorsSector2" "sec \<noteq> kSectorsSector3"
      by blast
    then show ?thesis
    proof cases
      case 1
      with u v False s1 show ?thesis
        by (intro exI [where x = "AddMarker (SEC_TO_MS (mTotalElapsed p)) s1"])
           (simp add: saveSectorTime_def AddMarker_def kSectorsSector1_def kSectorsSector2_def)
    next
      case 2
      with u v False s1 show ?thesis
        by (intro exI [where x = "AddMarker (SEC_TO_MS (mTotalElapsed p)) s1"])
           (simp add: saveSectorTime_def AddMarker_def kSectorsSector1_def kSectorsSector2_def
              kSectorsSector3_def)
    next
      case 3
      with u v False s1 show ?thesis
        by (intro exI [where x = s1])
           (simp add: saveSectorTime_def kSectorsSector1_def kSectorsSector2_def kSectorsSector3_def)
    next
      case 4
      with u v False s1 show ?thesis
        by (intro exI [where x = s1]) (simp add: saveSectorTime_def)
    qed
  qed
qed

section \<open>Properties of the telemetry updates\<close>

lemma hasCatalogue_AddMarker: "hasCatalogue (AddMarker m s) = hasCatalogue s"
  by (simp add: hasCatalogue_def AddMarker_def)

lemma startLogging_ok:
  "\<exists>p1 s1. startLogging info p = Inr p1 \<and> mIsLogging p1 \<and> mSession p1 = Some s1 \<and>
     hasCatalogue s1 \<and> mMarkers s1 = [] \<and>
     bufferOf kChannelRotation kGroupWheelRF s1 =
       Some [- mRotation (mWheel info 1), - mRotation (mWheel info 2)] \<and>
     bufferOf kChannelRotation kGroupWheelLF s1 = Some [- mRotation (mWheel info 0)] \<and>
     mEnterLapNumber p1 = mLapNumber info \<and> mFirstLapET p1 = 0 \<and>
     mTimeSinceLastSample p1 = 0 \<and> mTotalElapsed p1 = 0 \<and>
     mSamplingIntervalSeconds p1 = mSamplingIntervalSeconds p \<and>
     mCurrentSector p1 = kSectorsSector1 \<and> mCurrentPhase p1 = mCurrentPhase p"
proof -
  from startLogging_started [of info p]
  obtain s' where e: "startLogging info p =
      Inr (p\<lparr>mCurrentSector := kSectorsSector1, mSavedMetaData := False,
             mTotalElapsed := 0, mFirstLapET := 0,
             mEnterLapNumber := mLapNumber info, mCurrentLapNumber := mLapNumber info,
             mTimeSinceLastSample := 0, mIsLogging := True,
             mHasPreviousPosition := True, mPreviousPosition := mPos info,
             mCumulativeDistance := 0, mSession := Some s',
             logFile := logFile p @ [''Started logging'']\<rparr>)"
    and s': "hasCatalogue s'" "mMarkers s' = []"
      "bufferOf kChannelRotation kGroupWheelRF s' =
        Some [- mRotation (mWheel info 1), - mRotation (mWheel info 2)]"
      "bufferOf kChannelRotation kGroupWheelLF s' = Some [- mRotation (mWheel info 0)]"
    by blast
  show ?thesis
    unfolding e using s' by simp
qed

lemma admitFrame_admitted:
  assumes "mSession p = Some s" "hasCatalogue s"
  shows "\<exists>p' s'. admitFrame info p = Inr p' \<and> mIsLogging p' = mIsLogging p \<and>
           mSession p' = Some s' \<and> hasCatalogue s' \<and>
           mEnterPhase p' = mEnterPhase p \<and> mCurrentPhase p' = mCurrentPhase p \<and>
           mCurrentSector p' = mCurrentSector p \<and>
           mTotalElapsed p' = mTotalElapsed p + mDeltaTime info"
proof -
  define p1 where "p1 =
    (if mLapNumber info > mEnterLapNumber p \<and> mFirstLapET p = 0
     then p\<lparr>mFirstLapET := mTotalElapsed p,
            mSession := Some (AddMarker (SEC_TO_MS (mTotalElapsed p)) s)\<rparr>
     else p)"
  have "\<exists>s1. mSession p1 = Some s1 \<and> hasCatalogue s1"
    using assms by (cases "mLapNumber info > mEnterLapNumber p \<and> mFirstLapET p = 0")
      (simp_all add: p1_def hasCatalogue_AddMarker)
  then obtain s1 where s1: "mSession p1 = Some s1" "hasCatalogue s1"
    by blast
  have l1: "mIsLogging p1 = mIsLogging p" "mEnterPhase p1 = mEnterPhase p"
    "mCurrentPhase p1 = mCurrentPhase p" "mCurrentSector p1 = mCurrentSector p"
    "mTotalElapsed p1 = mTotalElapsed p"
    by (simp_all add: p1_def)
  have a: "admitFrame info p =
      bindE (if mTimeSinceLastSample p1 \<ge> mSamplingIntervalSeconds p1
             then bindE (SampleBlock info p1) (\<lambda>p. Inr (p\<lparr>mTimeSinceLastSample := 0\<rparr>))
             else Inr p1)
        (\<lambda>p. Inr (p\<lparr>mTotalElapsed := mTotalElapsed p + mDeltaTime info,
                     mTimeSinceLastSample := mTimeSinceLastSample p + mDeltaTime info\<rparr>))"
    using assms(1) by (simp add: admitFrame_def p1_def bindE_def)
  show ?thesis
  proof (cases "mTimeSinceLastSample p1 \<ge> mSamplingIntervalSeconds p1")
    case True
    from SampleBlock_sampled [OF s1, of info]
    obtain a b c cd where sb: "SampleBlock info p1 =
           Inr (p1\<lparr>mCurrentLapNumber := mLapNumber info, mCumulativeDistance := cd,
                  mPreviousPosition := mPos info, mHasPreviousPosition := True,
                  mSession := Some (s1\<lparr>mChannels :=
                     appendSamples (blockSamples info a b c (mTotalElapsed p1) cd) (mChannels s1)\<rparr>)\<rparr>)"
      by blast
    show ?thesis
      unfolding a using True l1 s1(2) by (simp add: sb bindE_def hasCatalogue_appendSamples)
  next
    case False
    with a s1 l1 show ?thesis
      by (simp add: bindE_def)
  qed
qed

lemma admitFrame_no_sample:
  assumes "\<not> (mLapNumber info > mEnterLapNumber p \<and> mFirstLapET p = 0)"
    "\<not> mTimeSinceLastSample p \<ge> mSamplingIntervalSeconds p"
  shows "admitFrame info p =
           Inr (p\<lparr>mTotalElapsed := mTotalElapsed p + mDeltaTime info,
                  mTimeSinceLastSample := mTimeSinceLastSample p + mDeltaTime info\<rparr>)"
proof -
  have "(if mLapNumber info > mEnterLapNumber p \<and> mFirstLapET p = 0
            then (case mSession p of
                    None \<Rightarrow> Inl NullPointer
                  | Some s \<Rightarrow>
                      Inr (p\<lparr>mFirstLapET := mTotalElapsed p,
                             mSession := Some (AddMarker (SEC_TO_MS (mTotalElapsed p)) s)\<rparr>))
            else Inr p) = Inr p"
    using assms(1) by (simp only: if_False)
  then show ?thesis
    unfolding admitFrame_def using assms(2) by (simp add: bindE_def)
qed


lemma UpdateTelemetry_waiting:
  assumes "\<not> mIsLogging p" "\<not> startImmediately (enteredPhase p)"
  shows "UpdateTelemetry info p =
           (if greenFlagReached info p
            then bindE (startLogging info (p\<lparr>mEnterPhase := enteredPhase p\<rparr>)) (admitFrame info)
            else Inr (p\<lparr>mEnterPhase := enteredPhase p\<rparr>))"
proof (cases "mEnterPhase p = kGamePhaseNotEnteredGame")
  case True
  with assms show ?thesis
    by (simp add: UpdateTelemetry_def bindE_def Let_def isCurrentlyLogging_def enteredPhase_def
          startImmediately_def greenFlagReached_def)
next
  case False
  then have "p\<lparr>mEnterPhase := enteredPhase p\<rparr> = p"
    by (simp add: enteredPhase_def)
  with False assms show ?thesis
    by (simp add: UpdateTelemetry_def bindE_def Let_def isCurrentlyLogging_def
          greenFlagReached_def)
qed

lemma UpdateTelemetry_immediate:
  assumes "mEnterPhase p = kGamePhaseNotEnteredGame" "startImmediately (mCurrentPhase p)"
  shows "UpdateTelemetry info p =
           bindE (startLogging info (p\<lparr>mEnterPhase := mCurrentPhase p\<rparr>)) (admitFrame info)"
proof -
  from startLogging_ok [of info "p\<lparr>mEnterPhase := mCurrentPhase p\<rparr>"]
  obtain p1 where "startLogging info (p\<lparr>mEnterPhase := mCurrentPhase p\<rparr>) = Inr p1" "mIsLogging p1"
    by blast
  with assms show ?thesis
    by (simp add: UpdateTelemetry_def bindE_def Let_def isCurrentlyLogging_def startImmediately_def)
qed

lemma UpdateTelemetry_logging:
  assumes "mIsLogging p" "mEnterPhase p \<noteq> kGamePhaseNotEnteredGame"
  shows "UpdateTelemetry info p = admitFrame info p"
  using assms by (simp add: UpdateTelemetry_def bindE_def isCurrentlyLogging_def)

text \<open>
  The resolver on a run of the out-lap: whatever telemetry frames arrive in between, each
  scoring update records what \<open>outLapDeltas\<close> says, at the elapsed time of its arrival.
\<close>

lemma outLap_events:
  assumes "outLapEvents (mCurrentPhase p) secs es" "mIsLogging p"
    "mEnterPhase p \<noteq> kGamePhaseNotEnteredGame" "mSession p = Some s" "hasCatalogue s"
  shows "resolverLog es p =
           Inr (outLapDeltas (mCurrentSector p) secs (scoringTimes es (mTotalElapsed p)))"
  using assms
proof (induction es arbitrary: p s secs)
  case Nil
  then show ?case by simp
next
  case (Cons ev es)
  show ?case
  proof (cases ev)
    case (Telemetry info)
    from admitFrame_admitted [OF Cons.prems(4,5), of info]
    obtain p' s' where a: "admitFrame info p = Inr p'" "mIsLogging p' = mIsLogging p"
      "mSession p' = Some s'" "hasCatalogue s'" "mEnterPhase p' = mEnterPhase p"
      "mCurrentPhase p' = mCurrentPhase p" "mCurrentSector p' = mCurrentSector p"
      "mTotalElapsed p' = mTotalElapsed p + mDeltaTime info"
      by blast
    have "resolverLog es p' =
            Inr (outLapDeltas (mCurrentSector p') secs (scoringTimes es (mTotalElapsed p')))"
      using Cons.prems a Telemetry by (intro Cons.IH [of p' secs s']) simp_all
    with a Telemetry Cons.prems(2,3) show ?thesis
      by (simp add: UpdateTelemetry_logging bindE_def)
  next
    case (Scoring info)
    with Cons.prems(1) obtain sec secs' where secs: "secs = sec # secs'"
      by (cases secs) simp_all
    with Cons.prems(1) Scoring have up: "outLapUpdate (mCurrentPhase p) sec info"
      and rest: "outLapEvents (mGamePhase info) secs' es"
      by simp_all
    from outLap_update [OF Cons.prems(2,4) up]
    obtain s1 where u: "UpdateScoring info p =
             Inr (p\<lparr>mCurrentPhase := mGamePhase info, mSession := Some s1,
                    mSavedMetaData := True, mCurrentSector := sec\<rparr>)"
      and c1: "mChannels s1 = mChannels s"
      and m1: "mMarkers s1 = mMarkers s @
             (if sec \<noteq> mCurrentSector p \<and> (sec = kSectorsSector2 \<or> sec = kSectorsSector3)
              then [round_float (SEC_TO_MS (mTotalElapsed p))] else [])"
      by blast
    let ?p1 = "p\<lparr>mCurrentPhase := mGamePhase info, mSession := Some s1,
                  mSavedMetaData := True, mCurrentSector := sec\<rparr>"
    have hc: "hasCatalogue s1"
      using c1 Cons.prems(5) by (simp add: hasCatalogue_def)
    have "resolverLog es ?p1 =
            Inr (outLapDeltas (mCurrentSector ?p1) secs' (scoringTimes es (mTotalElapsed ?p1)))"
      using rest Cons.prems(2,3) hc
      by (intro Cons.IH [of ?p1 secs' s1]) simp_all
    moreover have "drop (length (markersOf p)) (markersOf ?p1) =
             (if sec \<noteq> mCurrentSector p \<and> (sec = kSectorsSector2 \<or> sec = kSectorsSector3)
              then [round_float (SEC_TO_MS (mTotalElapsed p))] else [])"
      using m1 Cons.prems(4) by (simp add: markersOf_def)
    ultimately show ?thesis
      using u Scoring secs by (simp add: bindE_def)
  qed
qed

lemma scoringTimes_length:
  "outLapEvents ph secs es \<Longrightarrow> length (scoringTimes es e) = length secs"
  by (induction ph secs es arbitrary: e rule: outLapEvents.induct) simp_all


section \<open>Properties of stopping\<close>

lemma writeChannelData_Thrown:
  "writeChannelData io d m zf = Inl e \<Longrightarrow> \<exists>msg. e = Thrown msg"
  by (induction m arbitrary: zf) (auto simp: Let_def split: if_splits)

lemma Write_Thrown: "Write io f s = Inl e \<Longrightarrow> \<exists>msg. e = Thrown msg"
  by (auto simp: Write_def Let_def bindE_def split: if_splits sum.splits
        dest: writeChannelData_Thrown)

text \<open>
  Saving changes the log and the archives only: the archives by what \<open>flushed\<close> gives,
  the log by at most the line of a failed write.
\<close>

lemma saveSession_saved:
  assumes "mSession p = Some s"
  shows "\<exists>ls. saveSession p =
                Inr (p\<lparr>logFile := logFile p @ ls, archives := archives p @ flushed p s\<rparr>) \<and>
              ''Stopped logging'' \<notin> set ls"
proof (cases "cfgRequireOneLap (mConfiguration p) \<and> mCurrentLapNumber p - mEnterLapNumber p < 1")
  case True
  then have "saveSession p =
               Inr (p\<lparr>logFile := logFile p @ [], archives := archives p @ flushed p s\<rparr>)"
    by (simp add: saveSession_def flushed_def)
  then show ?thesis
    by (intro exI [where x = "[]"]) simp
next
  case False
  then have fl: "flushed p s =
      (case Write (zipLayer p) (archivePath p s) s of
         Inr zf \<Rightarrow> [(archivePath p s, zf)] | Inl e \<Rightarrow> [])"
    unfolding flushed_def by (simp only: if_False)
  from False assms have sv: "saveSession p =
      (case Write (zipLayer p) (archivePath p s) s of
         Inr zf \<Rightarrow> Inr (p\<lparr>archives := archives p @ [(archivePath p s, zf)]\<rparr>)
       | Inl (Thrown e) \<Rightarrow>
           Inr (logMessage (''Exception when attempting to write file: '' @ e) p)
       | Inl err \<Rightarrow> Inl err)"
    unfolding saveSession_def by (simp only: if_False option.case Let_def)
  show ?thesis
  proof (cases "Write (zipLayer p) (archivePath p s) s")
    case (Inr zf)
    then have "saveSession p =
                 Inr (p\<lparr>logFile := logFile p @ [], archives := archives p @ flushed p s\<rparr>)"
      by (simp add: sv fl)
    then show ?thesis
      by (intro exI [where x = "[]"]) simp
  next
    case (Inl e)
    then obtain msg where e: "e = Thrown msg"
      by (blast dest: Write_Thrown)
    with Inl have "saveSession p =
        Inr (p\<lparr>logFile := logFile p @ [''Exception when attempting to write file: '' @ msg],
               archives := archives p @ flushed p s\<rparr>)"
      by (simp add: sv fl logMessage_def)
    then show ?thesis
      by (intro exI [where x = "[''Exception when attempting to write file: '' @ msg]"]) simp
  qed
qed

lemma archivePath_unchanged_by_flag: "archivePath (p\<lparr>mIsLogging := b\<rparr>) s = archivePath p s"
  by (simp add: archivePath_def)

lemma flushed_unchanged_by_flag: "flushed (p\<lparr>mIsLogging := b\<rparr>) s = flushed p s"
  by (simp add: flushed_def archivePath_unchanged_by_flag split: sum.splits)

lemma length_flushed: "length (flushed p s) \<le> 1"
  by (simp add: flushed_def split: sum.splits)

lemma stopLogging_stopped:
  assumes "mSession p = Some s"
  shows "\<exists>ls. stopLogging p =
             Inr (p\<lparr>mIsLogging := False, mSession := None,
                    mEnterPhase := kGamePhaseNotEnteredGame,
                    logFile := logFile p @ ls @ [''Stopped logging''],
                    archives := archives p @ flushed p s\<rparr>) \<and>
           ''Stopped logging'' \<notin> set ls"
proof -
  have "mSession (p\<lparr>mIsLogging := False\<rparr>) = Some s"
    using assms by simp
  from saveSession_saved [OF this]
  obtain ls where sv: "saveSession (p\<lparr>mIsLogging := False\<rparr>) =
      Inr (p\<lparr>mIsLogging := False, logFile := logFile p @ ls,
             archives := archives p @ flushed p s\<rparr>)"
    and r: "''Stopped logging'' \<notin> set ls"
    by (auto simp: flushed_unchanged_by_flag)
  have "stopLogging p =
             Inr (p\<lparr>mIsLogging := False, mSession := None,
                    mEnterPhase := kGamePhaseNotEnteredGame,
                    logFile := logFile p @ ls @ [''Stopped logging''],
                    archives := archives p @ flushed p s\<rparr>)"
    by (simp add: stopLogging_def sv bindE_def logMessage_def)
  with r show ?thesis
    by blast
qed

lemma runScoring_not_logging:
  assumes "\<not> mIsLogging p"
  shows "runScoring infos p = Inr (p\<lparr>mCurrentPhase := last (mCurrentPhase p # map mGamePhase infos)\<rparr>)"
  using assms
proof (induction infos arbitrary: p)
  case Nil
  show ?case by simp
next
  case (Cons info infos)
  have "runScoring infos (p\<lparr>mCurrentPhase := mGamePhase info\<rparr>) =
          Inr (p\<lparr>mCurrentPhase := mGamePhase info,
                 mCurrentPhase := last (mGamePhase info # map mGamePhase infos)\<rparr>)"
    using Cons.IH [of "p\<lparr>mCurrentPhase := mGamePhase info\<rparr>"] Cons.prems by simp
  with Cons.prems show ?case
    by (simp add: UpdateScoring_not_logging bindE_def)
qed

lemma UpdateScoring_restart:
  assumes "mIsLogging p" "mGamePhase info < mCurrentPhase p"
  shows "UpdateScoring info p =
           bindE (stopLogging p) (\<lambda>q. Inr (q\<lparr>mCurrentPhase := mGamePhase info\<rparr>))"
proof (cases "stopLogging p")
  case (Inl e)
  with assms show ?thesis
    by (simp add: UpdateScoring_def bindE_def isCurrentlyLogging_def)
next
  case (Inr q)
  then have "\<not> mIsLogging q"
    by (auto simp: stopLogging_def saveSession_def bindE_def logMessage_def Let_def
          split: if_splits option.splits sum.splits error.splits)
  with Inr assms show ?thesis
    by (simp add: UpdateScoring_def bindE_def isCurrentlyLogging_def Let_def)
qed


section \<open>The claims about the plug-in\<close>

lemmas example_plugin_defs = exampleLogging_def exampleAwaiting_def exampleEntered_def
  EnterRealtime_def Startup_def logMessage_def exampleConfig_def MS_TO_SEC_def

lemma exampleLogging_fields:
  "mIsLogging exampleLogging"
  "mSession exampleLogging = Some (addCatalogue 200 0 catalogue (Session_new exampleDate))"
  "mCurrentSector exampleLogging = kSectorsSector1"
  "mCurrentPhase exampleLogging = kGamePhaseGreenFlag"
  "mSavedMetaData exampleLogging"
  "mTotalElapsed exampleLogging = 12.5"
  by (simp_all add: example_plugin_defs)

lemma created_markers: "mMarkers (addCatalogue iv n cat (Session_new d)) = []"
  using addCatalogue_fields [of iv n cat "Session_new d"] by (simp add: Session_new_def)

lemma SEC_TO_MS_12_5: "SEC_TO_MS 12.5 = 12500" "SEC_TO_MS (25 / 2) = 12500"
  by (simp_all add: SEC_TO_MS_def)

lemma playerOf_example: "playerOf (exampleScoring ph v) = (if mIsPlayer v then Some v else None)"
  by (simp add: playerOf_def exampleScoring_def exampleVehicle_def numeral_2_eq_2)

lemma outLapUpdate_example:
  "outLapUpdate kGamePhaseGreenFlag sec (outLapScoring sec)"
  by (simp add: outLapUpdate_def outLapScoring_def playerOf_example)
     (simp add: exampleScoring_def exampleVehicle_def kSessions_def)

lemma outLapScoring_phase: "mGamePhase (outLapScoring sec) = kGamePhaseGreenFlag"
  by (simp add: outLapScoring_def exampleScoring_def)

lemma outLapEvents_example:
  "outLapEvents (mCurrentPhase exampleLogging) [1, 1, 2, 2, 0, 0, 1] exampleOutLap"
  by (simp add: exampleOutLap_def exampleLogging_fields outLapUpdate_example outLapScoring_phase)

lemma scoringTimes_example:
  "scoringTimes exampleOutLap (mTotalElapsed exampleLogging) =
     [12.5, 12.51, 12.52, 12.53, 12.54, 12.55, 12.56]"
  by (simp add: exampleOutLap_def exampleLogging_fields exampleFrame_def)

lemma exampleLogging_entered: "mEnterPhase exampleLogging \<noteq> kGamePhaseNotEnteredGame"
  by (simp add: example_plugin_defs kGamePhaseGreenFlag_def kGamePhaseNotEnteredGame_def)

lemma SEC_TO_MS_example: "SEC_TO_MS 12.52 = 12520" "SEC_TO_MS 12.54 = 12540"
  by (simp_all add: SEC_TO_MS_def)

lemma seven_elements:
  "length xs = 7 \<Longrightarrow> \<exists>a b c d e f g. xs = [a, b, c, d, e, f, g]"
  by (auto simp: numeral_eq_Suc length_Suc_conv)

subsection \<open>The out-lap\<close>

text \<open>
  C1, as stated, fails. On the out-lap with the sectors 1, 1, 2, 2, 0, 0, 1 the claim has
  no marker at the change from sector 1 to sector 2 and one at the change from sector 0 to
  sector 1. In the run below, which starts 12.5 s into the logging run, the third scoring
  update (1 to 2) records the marker 12520 and the seventh (0 to 1) records nothing.
\<close>

theorem out_lap_marker_at_sector2_counterexample:
  "resolverLog exampleOutLap exampleLogging = Inr [[], [], [12520], [], [12540], [], []]"
proof -
  have "resolverLog exampleOutLap exampleLogging =
          Inr (outLapDeltas (mCurrentSector exampleLogging) [1, 1, 2, 2, 0, 0, 1]
                 (scoringTimes exampleOutLap (mTotalElapsed exampleLogging)))"
    by (rule outLap_events [OF outLapEvents_example exampleLogging_fields(1)
          exampleLogging_entered exampleLogging_fields(2) hasCatalogue_created])
  then show ?thesis
    unfolding scoringTimes_example exampleLogging_fields(3)
    by (simp add: SEC_TO_MS_def kSectorsSector1_def kSectorsSector2_def kSectorsSector3_def
          round_float_small)
qed

text \<open>
  C1, amended. In a logging run that is in sector 1, a run of the out-lap (last lap time
  and both splits 0 in every scoring update, the phase never going back, any telemetry
  frames in between) whose scoring updates report the sectors 1, 1, 2, 2, 0, 0, 1 makes
  the resolver record exactly two markers, both absolute and equal to the elapsed time of
  the plug-in, in milliseconds, at the arrival of the update: one at the change from sector
  1 to sector 2 and one at the change from sector 2 to sector 0. The change from sector 0
  to sector 1 records no marker. A marker is stored as the \<^verbatim>\<open>float\<close> nearest to the number
  of milliseconds.
\<close>

theorem out_lap_markers:
  assumes "mIsLogging p" "mEnterPhase p \<noteq> kGamePhaseNotEnteredGame"
    "mSession p = Some s" "hasCatalogue s" "mCurrentSector p = kSectorsSector1"
    "outLapEvents (mCurrentPhase p) [1, 1, 2, 2, 0, 0, 1] es"
  shows "\<exists>t1 t2 t3 t4 t5 t6 t7.
           scoringTimes es (mTotalElapsed p) = [t1, t2, t3, t4, t5, t6, t7] \<and>
           resolverLog es p =
             Inr [[], [], [round_float (SEC_TO_MS t3)], [], [round_float (SEC_TO_MS t5)], [], []]"
proof -
  from assms(6) have "length (scoringTimes es (mTotalElapsed p)) = 7"
    by (simp add: scoringTimes_length)
  then obtain t1 t2 t3 t4 t5 t6 t7
    where t: "scoringTimes es (mTotalElapsed p) = [t1, t2, t3, t4, t5, t6, t7]"
    by (blast dest: seven_elements)
  have "resolverLog es p =
          Inr (outLapDeltas (mCurrentSector p) [1, 1, 2, 2, 0, 0, 1]
                 (scoringTimes es (mTotalElapsed p)))"
    by (rule outLap_events [OF assms(6,1,2,3,4)])
  then have "resolverLog es p =
          Inr [[], [], [round_float (SEC_TO_MS t3)], [], [round_float (SEC_TO_MS t5)], [], []]"
    by (simp add: t assms(5) kSectorsSector1_def kSectorsSector2_def kSectorsSector3_def)
  with t show ?thesis
    by blast
qed

theorem out_lap_markers_witness:
  "mIsLogging exampleLogging \<and> mEnterPhase exampleLogging \<noteq> kGamePhaseNotEnteredGame \<and>
   mCurrentSector exampleLogging = kSectorsSector1 \<and>
   outLapEvents (mCurrentPhase exampleLogging) [1, 1, 2, 2, 0, 0, 1] exampleOutLap \<and>
   scoringTimes exampleOutLap (mTotalElapsed exampleLogging) =
     [12.5, 12.51, 12.52, 12.53, 12.54, 12.55, 12.56] \<and>
   resolverLog exampleOutLap exampleLogging = Inr [[], [], [12520], [], [12540], [], []]"
proof -
  from out_lap_markers [OF exampleLogging_fields(1) exampleLogging_entered
      exampleLogging_fields(2) hasCatalogue_created exampleLogging_fields(3)
      outLapEvents_example]
  obtain t1 t2 t3 t4 t5 t6 t7
    where ts: "scoringTimes exampleOutLap (mTotalElapsed exampleLogging) =
                 [t1, t2, t3, t4, t5, t6, t7]"
      and r: "resolverLog exampleOutLap exampleLogging =
                Inr [[], [], [round_float (SEC_TO_MS t3)], [], [round_float (SEC_TO_MS t5)], [], []]"
    by blast
  from ts have "[t1, t2, t3, t4, t5, t6, t7] = [12.5, 12.51, 12.52, 12.53, 12.54, 12.55, 12.56]"
    by (simp only: scoringTimes_example)
  then have t: "t3 = 12.52" "t5 = 12.54"
    unfolding list.inject by blast+
  have "resolverLog exampleOutLap exampleLogging = Inr [[], [], [12520], [], [12540], [], []]"
    using r unfolding t SEC_TO_MS_example by (simp add: round_float_small)
  with exampleLogging_fields(1,3) exampleLogging_entered outLapEvents_example
    scoringTimes_example
  show ?thesis
    by (simp only: simp_thms)
qed

lemma UpdateScoring_transition:
  assumes "mIsLogging p" "mSession p = Some s" "mCurrentPhase p \<le> mGamePhase info"
    "metadataReady info p" "playerOf info = Some v" "mSector v \<noteq> mCurrentSector p"
  shows "\<exists>p' s'. UpdateScoring info p = Inr p' \<and> mSession p' = Some s' \<and>
           mCurrentSector p' = mSector v \<and>
           (mSector v = kSectorsSector2 \<longrightarrow>
              mMarkers s' = (if mCurSector1 v > 0
                             then mMarkers (AddRelativeMarker (SEC_TO_MS (mCurSector1 v)) s)
                             else mMarkers (AddMarker (SEC_TO_MS (mTotalElapsed p)) s))) \<and>
           (mSector v = kSectorsSector1 \<longrightarrow>
              mMarkers s' = (if mLastLapTime v > 0
                             then mMarkers (AddRelativeMarker
                                    (SEC_TO_MS (mLastLapTime v - mLastSector2 v)) s)
                             else mMarkers s))"
proof -
  from UpdateScoring_player [OF assms(1-5)] assms(6)
  obtain s1 where s1: "mMarkers s1 = mMarkers s"
    and u: "UpdateScoring info p =
              saveSectorTime info v
                (p\<lparr>mCurrentPhase := mGamePhase info, mSession := Some s1,
                   mSavedMetaData := True, mCurrentSector := mSector v\<rparr>)"
    by auto
  let ?q = "p\<lparr>mCurrentPhase := mGamePhase info, mSession := Some s1,
              mSavedMetaData := True, mCurrentSector := mSector v\<rparr>"
  have "\<exists>s'. saveSectorTime info v ?q = Inr (?q\<lparr>mSession := Some s'\<rparr>) \<and>
          (mSector v = kSectorsSector2 \<longrightarrow>
              mMarkers s' = (if mCurSector1 v > 0
                             then mMarkers (AddRelativeMarker (SEC_TO_MS (mCurSector1 v)) s)
                             else mMarkers (AddMarker (SEC_TO_MS (mTotalElapsed p)) s))) \<and>
          (mSector v = kSectorsSector1 \<longrightarrow>
              mMarkers s' = (if mLastLapTime v > 0
                             then mMarkers (AddRelativeMarker
                                    (SEC_TO_MS (mLastLapTime v - mLastSector2 v)) s)
                             else mMarkers s))"
  proof -
    consider "mSector v = kSectorsSector1" | "mSector v = kSectorsSector2"
      | "mSector v \<noteq> kSectorsSector1" "mSector v \<noteq> kSectorsSector2"
      by blast
    then show ?thesis
    proof cases
      case 1
      show ?thesis
      proof (cases "mLastLapTime v > 0")
        case True
        with 1 s1 show ?thesis
          by (intro exI [where x = "AddRelativeMarker (SEC_TO_MS (mLastLapTime v - mLastSector2 v)) s1"])
             (simp add: saveSectorTime_def mMarkers_AddRelativeMarker kSectorsSector1_def
                kSectorsSector2_def)
      next
        case False
        with 1 s1 show ?thesis
          by (intro exI [where x = s1])
             (simp add: saveSectorTime_def kSectorsSector1_def kSectorsSector2_def)
      qed
    next
      case 2
      show ?thesis
      proof (cases "mCurSector1 v > 0")
        case True
        with 2 s1 show ?thesis
          by (intro exI [where x = "AddRelativeMarker (SEC_TO_MS (mCurSector1 v)) s1"])
             (simp add: saveSectorTime_def mMarkers_AddRelativeMarker kSectorsSector1_def
                kSectorsSector2_def)
      next
        case False
        with 2 s1 show ?thesis
          by (intro exI [where x = "AddMarker (SEC_TO_MS (mTotalElapsed p)) s1"])
             (simp add: saveSectorTime_def AddMarker_def kSectorsSector1_def kSectorsSector2_def)
      qed
    next
      case 3
      have "\<exists>s'. saveSectorTime info v ?q = Inr (?q\<lparr>mSession := Some s'\<rparr>)"
        using 3 by (auto simp: saveSectorTime_def intro: exI [where x = s1])
      with 3 show ?thesis
        by simp
    qed
  qed
  then obtain s' where "saveSectorTime info v ?q = Inr (?q\<lparr>mSession := Some s'\<rparr>)"
    and m: "mSector v = kSectorsSector2 \<longrightarrow>
              mMarkers s' = (if mCurSector1 v > 0
                             then mMarkers (AddRelativeMarker (SEC_TO_MS (mCurSector1 v)) s)
                             else mMarkers (AddMarker (SEC_TO_MS (mTotalElapsed p)) s))"
       "mSector v = kSectorsSector1 \<longrightarrow>
              mMarkers s' = (if mLastLapTime v > 0
                             then mMarkers (AddRelativeMarker
                                    (SEC_TO_MS (mLastLapTime v - mLastSector2 v)) s)
                             else mMarkers s)"
    by blast
  with u have "UpdateScoring info p = Inr (?q\<lparr>mSession := Some s'\<rparr>)"
    by simp
  with m show ?thesis
    by (intro exI [where x = "?q\<lparr>mSession := Some s'\<rparr>"] exI [where x = s']) simp
qed

lemma exampleLogging_ready:
  "mCurrentPhase exampleLogging \<le> mGamePhase (exampleScoring kGamePhaseGreenFlag v)"
  "metadataReady (exampleScoring kGamePhaseGreenFlag v) exampleLogging"
  by (simp_all add: exampleLogging_fields metadataReady_def) (simp add: exampleScoring_def)

lemma SEC_TO_MS_values: "SEC_TO_MS (57 / 2) = 28500" "SEC_TO_MS 30 = 30000"
  by (simp_all add: SEC_TO_MS_def)

text \<open>
  C2, as stated, fails. The player enters sector 2 with a last lap of 90 s and a last
  second split of 60 s: the claim records the relative marker 30000, the code records the
  current first split, 28500. On the out-lap (last lap time 0) the claim records nothing
  on entering sector 2, the code records the absolute marker 12500.
\<close>

theorem sector2_entry_marker_counterexample:
  "mLastLapTime lapKnownVehicle > 0 \<and>
   SEC_TO_MS (mLastLapTime lapKnownVehicle - mLastSector2 lapKnownVehicle) = 30000 \<and>
   resultMarkers (UpdateScoring (exampleScoring kGamePhaseGreenFlag lapKnownVehicle) exampleLogging) =
     Some [28500] \<and>
   mLastLapTime (exampleVehicle True 2 0 0 0 0) = 0 \<and>
   resultMarkers (UpdateScoring (outLapScoring 2) exampleLogging) = Some [12500]"
proof -
  have a: "resultMarkers (UpdateScoring (exampleScoring kGamePhaseGreenFlag lapKnownVehicle) exampleLogging) =
     Some [28500]"
  proof -
    have pl: "playerOf (exampleScoring kGamePhaseGreenFlag lapKnownVehicle) = Some lapKnownVehicle"
      by (simp add: playerOf_example) (simp add: lapKnownVehicle_def exampleVehicle_def)
    have ne: "mSector lapKnownVehicle \<noteq> mCurrentSector exampleLogging"
      by (simp add: exampleLogging_fields lapKnownVehicle_def exampleVehicle_def kSectorsSector1_def)
    from UpdateScoring_transition [OF exampleLogging_fields(1,2) exampleLogging_ready pl ne]
    show ?thesis
      by (auto simp: resultMarkers_def markersOf_def lapKnownVehicle_def exampleVehicle_def
            kSectorsSector2_def mMarkers_AddRelativeMarker created_markers SEC_TO_MS_values
            round_float_small)
  qed
  have b: "resultMarkers (UpdateScoring (outLapScoring 2) exampleLogging) = Some [12500]"
  proof -
    have pl: "playerOf (outLapScoring 2) = Some (exampleVehicle True 2 0 0 0 0)"
      by (simp add: outLapScoring_def playerOf_example) (simp add: exampleVehicle_def)
    have ne: "mSector (exampleVehicle True 2 0 0 0 0) \<noteq> mCurrentSector exampleLogging"
      by (simp add: exampleLogging_fields exampleVehicle_def kSectorsSector1_def)
    from UpdateScoring_transition [OF exampleLogging_fields(1,2) exampleLogging_ready [of "exampleVehicle True 2 0 0 0 0"]
        pl [unfolded outLapScoring_def] ne]
    show ?thesis
      by (auto simp: resultMarkers_def markersOf_def exampleVehicle_def outLapScoring_def
            kSectorsSector2_def AddMarker_def created_markers exampleLogging_fields SEC_TO_MS_12_5
            round_float_small)
  qed
  from a b show ?thesis
    by (simp add: lapKnownVehicle_def exampleVehicle_def SEC_TO_MS_values)
qed

text \<open>
  C2, amended. On the change into sector 2, which completes sector 1, the resolver records
  the current first split as a relative marker when that split is greater than 0, and
  otherwise an absolute marker at the elapsed time. On the change into sector 1, which
  completes the lap, it records the last lap time minus the last second split as a
  relative marker when the last lap time is greater than 0, and otherwise no marker.
\<close>

theorem sector_transition_markers:
  assumes "mIsLogging p" "mSession p = Some s" "mCurrentPhase p \<le> mGamePhase info"
    "metadataReady info p" "playerOf info = Some v" "mSector v \<noteq> mCurrentSector p"
  shows "\<exists>p' s'. UpdateScoring info p = Inr p' \<and> mSession p' = Some s' \<and>
           mCurrentSector p' = mSector v \<and>
           (mSector v = kSectorsSector2 \<longrightarrow>
              mMarkers s' = (if mCurSector1 v > 0
                             then mMarkers (AddRelativeMarker (SEC_TO_MS (mCurSector1 v)) s)
                             else mMarkers (AddMarker (SEC_TO_MS (mTotalElapsed p)) s))) \<and>
           (mSector v = kSectorsSector1 \<longrightarrow>
              mMarkers s' = (if mLastLapTime v > 0
                             then mMarkers (AddRelativeMarker
                                    (SEC_TO_MS (mLastLapTime v - mLastSector2 v)) s)
                             else mMarkers s))"
  using assms by (rule UpdateScoring_transition)

theorem sector_transition_markers_witness:
  "mIsLogging exampleLogging \<and>
   playerOf (exampleScoring kGamePhaseGreenFlag lapKnownVehicle) = Some lapKnownVehicle \<and>
   mSector lapKnownVehicle = kSectorsSector2 \<and> mCurrentSector exampleLogging = kSectorsSector1 \<and>
   resultMarkers (UpdateScoring (exampleScoring kGamePhaseGreenFlag lapKnownVehicle) exampleLogging) =
     Some [28500] \<and>
   mSector lapDoneVehicle = kSectorsSector1 \<and> mCurrentSector exampleThirdSector = kSectorsSector3 \<and>
   resultMarkers (UpdateScoring (exampleScoring kGamePhaseGreenFlag lapDoneVehicle) exampleThirdSector) =
     Some [30000]"
proof -
  have pl: "playerOf (exampleScoring kGamePhaseGreenFlag lapKnownVehicle) = Some lapKnownVehicle"
    by (simp add: playerOf_example) (simp add: lapKnownVehicle_def exampleVehicle_def)
  have ne: "mSector lapKnownVehicle \<noteq> mCurrentSector exampleLogging"
    by (simp add: exampleLogging_fields lapKnownVehicle_def exampleVehicle_def kSectorsSector1_def)
  have a: "resultMarkers (UpdateScoring (exampleScoring kGamePhaseGreenFlag lapKnownVehicle) exampleLogging) =
     Some [28500]"
    using sector_transition_markers [OF exampleLogging_fields(1,2) exampleLogging_ready pl ne]
    by (auto simp: resultMarkers_def markersOf_def lapKnownVehicle_def exampleVehicle_def
          kSectorsSector2_def mMarkers_AddRelativeMarker created_markers SEC_TO_MS_values
            round_float_small)
  have f: "mIsLogging exampleThirdSector"
    "mSession exampleThirdSector = Some (addCatalogue 200 0 catalogue (Session_new exampleDate))"
    "mCurrentPhase exampleThirdSector \<le> mGamePhase (exampleScoring kGamePhaseGreenFlag lapDoneVehicle)"
    "metadataReady (exampleScoring kGamePhaseGreenFlag lapDoneVehicle) exampleThirdSector"
    using exampleLogging_fields exampleLogging_ready [of lapDoneVehicle]
    by (simp_all add: exampleThirdSector_def metadataReady_def)
  have pl2: "playerOf (exampleScoring kGamePhaseGreenFlag lapDoneVehicle) = Some lapDoneVehicle"
    by (simp add: playerOf_example) (simp add: lapDoneVehicle_def exampleVehicle_def)
  have ne2: "mSector lapDoneVehicle \<noteq> mCurrentSector exampleThirdSector"
    by (simp add: exampleThirdSector_def lapDoneVehicle_def exampleVehicle_def kSectorsSector3_def)
  have b: "resultMarkers (UpdateScoring (exampleScoring kGamePhaseGreenFlag lapDoneVehicle) exampleThirdSector) =
     Some [30000]"
    using sector_transition_markers [OF f pl2 ne2]
    by (auto simp: resultMarkers_def markersOf_def lapDoneVehicle_def exampleVehicle_def
          kSectorsSector1_def mMarkers_AddRelativeMarker created_markers SEC_TO_MS_values
            round_float_small)
  from a b pl show ?thesis
    by (simp add: exampleLogging_fields exampleThirdSector_def lapKnownVehicle_def
          lapDoneVehicle_def exampleVehicle_def kSectorsSector1_def kSectorsSector2_def)
qed

subsection \<open>Waiting for the green flag\<close>




subsection \<open>One sample per channel\<close>

text \<open>
  C4 fails on the code. The first telemetry frame after entering before the session starts
  logging and takes one sample. The wheels of the frame turn at -40, -41, -42 and -43
  rad/s. After the frame the buffer of the channel Rotation of the group "Wheel RF" holds
  two values, 41 of the right front wheel and 42 of the left rear wheel, and the buffer of
  Rotation of "Wheel LF" holds one. The third entry of \<open>kWheels\<close>, \<open>kGroupWheelLR\<close>,
  is the string "Wheel RF", so the samples of the left rear wheel go to the channels of
  the right front wheel.
\<close>

theorem first_frame_buffers:
  "(case UpdateTelemetry (exampleFrame 0) (exampleEntered kGamePhaseBeforeSession) of
      Inl e \<Rightarrow> False
    | Inr p' \<Rightarrow>
        (case mSession p' of
           None \<Rightarrow> False
         | Some s \<Rightarrow> bufferOf kChannelRotation kGroupWheelRF s = Some [41, 42] \<and>
                     bufferOf kChannelRotation kGroupWheelLF s = Some [40]))"
proof -
  let ?p = "exampleEntered kGamePhaseBeforeSession"
  have e: "mEnterPhase ?p = kGamePhaseNotEnteredGame" "startImmediately (mCurrentPhase ?p)"
    "mSamplingIntervalSeconds ?p = 0.2"
    by (simp_all add: example_plugin_defs startImmediately_def)
  from startLogging_ok [of "exampleFrame 0" "?p\<lparr>mEnterPhase := mCurrentPhase ?p\<rparr>"]
  obtain p1 s1 where p1: "startLogging (exampleFrame 0) (?p\<lparr>mEnterPhase := mCurrentPhase ?p\<rparr>) = Inr p1"
    "mSession p1 = Some s1"
    "bufferOf kChannelRotation kGroupWheelRF s1 =
       Some [- mRotation (mWheel (exampleFrame 0) 1), - mRotation (mWheel (exampleFrame 0) 2)]"
    "bufferOf kChannelRotation kGroupWheelLF s1 = Some [- mRotation (mWheel (exampleFrame 0) 0)]"
    "mEnterLapNumber p1 = mLapNumber (exampleFrame 0)" "mTimeSinceLastSample p1 = 0"
    "mSamplingIntervalSeconds p1 = mSamplingIntervalSeconds (?p\<lparr>mEnterPhase := mCurrentPhase ?p\<rparr>)"
    by blast
  have w: "mWheel (exampleFrame 0) = exampleWheel"
    by (simp add: exampleFrame_def)
  have "admitFrame (exampleFrame 0) p1 =
           Inr (p1\<lparr>mTotalElapsed := mTotalElapsed p1 + mDeltaTime (exampleFrame 0),
                  mTimeSinceLastSample := mTimeSinceLastSample p1 + mDeltaTime (exampleFrame 0)\<rparr>)"
    by (rule admitFrame_no_sample) (simp_all add: p1 e)
  then show ?thesis
    by (simp add: UpdateTelemetry_immediate [OF e(1,2)] p1 w exampleWheel_def bindE_def)
qed

subsection \<open>Restart\<close>

text \<open>
  C5. While logging, a scoring update whose phase is lower than the current phase is one
  \<^verbatim>\<open>stopLogging\<close> followed by the update of the phase, and nothing else: no metadata and
  no marker are processed. The stop saves the session as it was before the update (the
  archives grow by what saving that session adds, at most one archive), writes one line
  "Stopped logging" and leaves the plug-in not logging, without a session and with no
  entry phase. After it, scoring updates change the current phase only, and a telemetry
  frame that does not meet a start condition leaves the plug-in without a session.
\<close>

theorem restart_stops_logging:
  assumes "mIsLogging p" "mSession p = Some s" "mGamePhase info < mCurrentPhase p"
  shows "\<exists>q ls.
           stopLogging p = Inr q \<and>
           UpdateScoring info p = Inr (q\<lparr>mCurrentPhase := mGamePhase info\<rparr>) \<and>
           \<not> mIsLogging q \<and> mSession q = None \<and> mEnterPhase q = kGamePhaseNotEnteredGame \<and>
           logFile q = logFile p @ ls @ [''Stopped logging''] \<and> ''Stopped logging'' \<notin> set ls \<and>
           archives q = archives p @ flushed p s \<and> length (flushed p s) \<le> 1 \<and>
           (\<forall>infos. runScoring infos (q\<lparr>mCurrentPhase := mGamePhase info\<rparr>) =
                      Inr (q\<lparr>mCurrentPhase := last (mGamePhase info # map mGamePhase infos)\<rparr>)) \<and>
           (\<forall>t. \<not> startImmediately (mGamePhase info) \<and>
                 \<not> (kGamePhaseGreenFlag \<le> mGamePhase info \<and> 0 < mLapStartET t) \<longrightarrow>
                 UpdateTelemetry t (q\<lparr>mCurrentPhase := mGamePhase info\<rparr>) =
                   Inr (q\<lparr>mCurrentPhase := mGamePhase info, mEnterPhase := mGamePhase info\<rparr>))"
proof -
  from stopLogging_stopped [OF assms(2)]
  obtain ls where st: "stopLogging p =
             Inr (p\<lparr>mIsLogging := False, mSession := None,
                    mEnterPhase := kGamePhaseNotEnteredGame,
                    logFile := logFile p @ ls @ [''Stopped logging''],
                    archives := archives p @ flushed p s\<rparr>)"
    and r: "''Stopped logging'' \<notin> set ls"
    by blast
  define q where "q = p\<lparr>mIsLogging := False, mSession := None,
                    mEnterPhase := kGamePhaseNotEnteredGame,
                    logFile := logFile p @ ls @ [''Stopped logging''],
                    archives := archives p @ flushed p s\<rparr>"
  have q: "\<not> mIsLogging q" "mSession q = None" "mEnterPhase q = kGamePhaseNotEnteredGame"
    "logFile q = logFile p @ ls @ [''Stopped logging'']" "archives q = archives p @ flushed p s"
    by (simp_all add: q_def)
  let ?q' = "q\<lparr>mCurrentPhase := mGamePhase info\<rparr>"
  have u: "UpdateScoring info p = Inr ?q'"
    by (simp add: UpdateScoring_restart [OF assms(1,3)] st q_def bindE_def)
  have sc: "runScoring infos ?q' =
              Inr (q\<lparr>mCurrentPhase := last (mGamePhase info # map mGamePhase infos)\<rparr>)" for infos
    using runScoring_not_logging [of ?q' infos] q(1) by simp
  have tl: "UpdateTelemetry t ?q' =
              Inr (q\<lparr>mCurrentPhase := mGamePhase info, mEnterPhase := mGamePhase info\<rparr>)"
    if "\<not> startImmediately (mGamePhase info) \<and>
        \<not> (kGamePhaseGreenFlag \<le> mGamePhase info \<and> 0 < mLapStartET t)" for t
  proof -
    have e: "enteredPhase ?q' = mGamePhase info"
      by (simp add: enteredPhase_def q)
    have "\<not> mIsLogging ?q'" "\<not> startImmediately (enteredPhase ?q')"
      using that q(1) by (simp_all add: e)
    from UpdateTelemetry_waiting [OF this, of t] that show ?thesis
      by (simp add: e greenFlagReached_def)
  qed
  from st [folded q_def] u q r sc tl length_flushed [of p s] show ?thesis
    by blast
qed

theorem restart_stops_logging_witness:
  "mIsLogging exampleLogging \<and> mGamePhase restartScoring < mCurrentPhase exampleLogging \<and>
   (case UpdateScoring restartScoring exampleLogging of
      Inl e \<Rightarrow> False
    | Inr p' \<Rightarrow> \<not> mIsLogging p' \<and> mSession p' = None \<and>
                mCurrentPhase p' = kGamePhaseFormationLap \<and>
                last (logFile p') = ''Stopped logging'')"
proof -
  have lt: "mGamePhase restartScoring < mCurrentPhase exampleLogging"
    by (simp add: exampleLogging_fields restartScoring_def exampleScoring_def
          kGamePhaseFormationLap_def kGamePhaseGreenFlag_def)
  from restart_stops_logging [OF exampleLogging_fields(1,2) lt]
  obtain q ls where "UpdateScoring restartScoring exampleLogging =
      Inr (q\<lparr>mCurrentPhase := mGamePhase restartScoring\<rparr>)"
    "\<not> mIsLogging q" "mSession q = None"
    "logFile q = logFile exampleLogging @ ls @ [''Stopped logging'']"
    by blast
  with lt exampleLogging_fields(1) show ?thesis
    by (simp add: restartScoring_def exampleScoring_def)
qed

subsection \<open>The vehicle category in the archive\<close>

text \<open>
  C6 fails on the code. The meta document and the archive of a session do not depend on
  its vehicle category: setting any category leaves both as they were, so a reader of the
  archive cannot reconstruct the category. \<^verbatim>\<open>_writeMetaXml\<close> builds the category element
  and never links it into the document.
\<close>

theorem Write_drops_category:
  "writeMetaXml (SetVehicleCategory c s) = writeMetaXml s \<and>
   Write io fileName (SetVehicleCategory c s) = Write io fileName s"
  by (simp add: Write_def writeMetaXml_def SetVehicleCategory_def Let_def)

lemma addCatalogue_names:
  assumes "list_all (\<lambda>(k, c). P (mName c) (mGroup c)) (mChannels s)"
    "list_all (\<lambda>(nm, u, g). P nm g) cat"
  shows "list_all (\<lambda>(k, c). P (mName c) (mGroup c)) (mChannels (addCatalogue iv n cat s))"
  using assms
proof (induction cat arbitrary: n s)
  case Nil
  then show ?case by simp
next
  case (Cons x cat)
  obtain nm u g where x: "x = (nm, u, g)" by (cases x)
  from Cons.prems x
  have "list_all (\<lambda>(k, c). P (mName c) (mGroup c))
          (mChannels (AddChannel (Channel_new n nm iv u g) s))"
    by (simp add: AddChannel_def map_insert_def Channel_new_def Let_def)
  with Cons.prems x show ?case
    by (simp add: Cons.IH)
qed

lemma catalogue_names:
  "list_all (\<lambda>(nm, u, g). g \<noteq> ''Wheel LR'' \<and> nm \<noteq> ''Ride Height'') catalogue"
  by (simp add: catalogue_def wheelCatalogue_def kWheels_def kNumberOfWheels_def upt4
        channel_name_defs)

lemma catalogue_no_LR_key:
  "channel_key kChannelRotation ''Wheel LR'' \<notin> (\<lambda>(nm, u, g). channel_key nm g) ` set catalogue"
  by (simp add: catalogue_def wheelCatalogue_def kWheels_def kNumberOfWheels_def upt4
        channel_key_def channel_name_defs)

subsection \<open>The wheel groups of a new session\<close>

text \<open>
  C7 fails on the code. In the session that \<^verbatim>\<open>CreateLoggingSession\<close> creates no channel
  has the group "Wheel LR" and none has the name "Ride Height"; looking up Rotation of
  "Wheel LR" throws. The third wheel group is the string "Wheel RF" a second time, and the
  ride height channel is named "Right Height".
\<close>

theorem created_session_lacks_wheel_LR:
  "(case mSession (CreateLoggingSession p) of
      None \<Rightarrow> False
    | Some s \<Rightarrow>
        list_all (\<lambda>(k, c). mGroup c \<noteq> ''Wheel LR'' \<and> mName c \<noteq> ''Ride Height'') (mChannels s) \<and>
        GetChannel kChannelRotation ''Wheel LR'' s = Inl (Thrown ''Channel does not exist.'') \<and>
        kWheels ! 2 = ''Wheel RF'' \<and> kChannelRideHeight = ''Right Height'')"
proof -
  let ?s = "addCatalogue (mSamplingInterval p) 0 catalogue (Session_new (hostClock p))"
  have n: "list_all (\<lambda>(k, c). mGroup c \<noteq> ''Wheel LR'' \<and> mName c \<noteq> ''Ride Height'') (mChannels ?s)"
    by (rule addCatalogue_names [OF _ catalogue_names]) (simp add: Session_new_def)
  have k: "\<not> MAP_HAS_KEY (mChannels ?s) (channel_key kChannelRotation ''Wheel LR'')"
    using catalogue_no_LR_key by (simp add: MAP_HAS_KEY_iff addCatalogue_keys Session_new_def)
  have "MAP_HAS_KEY (mChannels ?s) (channel_key kChannelRotation kGroupWheelRF)"
    using rotation_in_catalogue(1) by (force simp: MAP_HAS_KEY_iff addCatalogue_keys)
  then have ne: "mChannels ?s \<noteq> []"
    by (auto simp: MAP_HAS_KEY_def)
  from k ne have "GetChannel kChannelRotation ''Wheel LR'' ?s = Inl (Thrown ''Channel does not exist.'')"
    by (simp add: GetChannel_def Let_def)
  with n show ?thesis
    by (simp add: CreateLoggingSession_def kWheels_def kGroupWheelLR_def kChannelRideHeight_def)
qed

end
